theory Spec2Isabelle
  imports Complex_Main "HOL-Library.Multiset"
begin

section \<open>The DOM as the library observes it\<close>

text \<open>
  The library never owns the DOM: it reads attributes, the inline \<open>style\<close> property,
  a few reflected properties (\<open>disabled\<close>, \<open>type\<close>, \<open>isConnected\<close>), walks
  \<open>parentElement\<close> links upwards, asks a container for its descendants through
  \<open>querySelectorAll\<close>, and calls \<open>focus\<close>. An element is modelled by exactly these
  observations. Strings are sequences of code units below 256.

  \<^item> \<open>eid\<close> is the identity of the node: \<open>===\<close> on elements is equality of the
    whole value, and two nodes of one document differ at least in \<open>eid\<close>.
  \<^item> \<open>style\<close> is the element's own \<open>style\<close> property, the inline declarations;
    it is \<open>None\<close> where the object has no such property (the source reads it through
    \<open>?.\<close>).
  \<^item> \<open>computedStyle\<close> is what \<open>getComputedStyle\<close> reports for the element, style
    sheets included. The library never reads it; it is part of the element because
    whether a user sees the element depends on it.
  \<^item> \<open>focus\<close> says what a call of the element's \<open>focus\<close> method does: it makes the
    element the active element, it returns without any effect (the element is not a
    focusable area for the browser), or it throws.
  \<^item> \<open>shadowRoot\<close> is the result of reading the property: a thrown exception, \<open>null\<close>,
    or a shadow root with its \<open>mode\<close> and its descendants in document order.
\<close>

datatype exn = Error | TypeError | SyntaxError | ReferenceError

datatype focus_method = Accepts | Ignores | Throws

datatype css_style = Style (display: string) (visibility: string)

datatype element = Element
  (eid: nat)
  (tagName: string)
  (attributes: "(string \<times> string) list")
  (style: "css_style option")
  (computedStyle: css_style)
  (disabled: bool)
  (type: string)
  (isConnected: bool)
  (focus: focus_method)
  (parentElement: "element option")
  (shadowRoot: "exn + shadow_root option")
and shadow_root = ShadowRoot (mode: string) (shadowDescendants: "element list")

definition getAttribute :: "element \<Rightarrow> string \<Rightarrow> string option" where
  "getAttribute el name = map_of (attributes el) name"

definition hasAttribute :: "element \<Rightarrow> string \<Rightarrow> bool" where
  "hasAttribute el name = (map_of (attributes el) name \<noteq> None)"

text \<open>\<open>String.prototype.toLowerCase\<close> on the code units \<open>A\<close> to \<open>Z\<close>.\<close>

definition lowerChar :: "char \<Rightarrow> char" where
  "lowerChar c =
     (case map_of (zip ''ABCDEFGHIJKLMNOPQRSTUVWXYZ'' ''abcdefghijklmnopqrstuvwxyz'') c of
        None \<Rightarrow> c
      | Some l \<Rightarrow> l)"

definition toLowerCase :: "string \<Rightarrow> string" where
  "toLowerCase s = map lowerChar s"

subsection \<open>\<open>parseInt(string, 10)\<close>\<close>

text \<open>
  The global \<open>parseInt\<close> with radix 10: leading white space is skipped, one sign is
  read, and the longest prefix of decimal digits is the value; with no digit the result
  is \<open>NaN\<close>, here \<open>None\<close>. The source only asks whether the result is \<open>NaN\<close> and
  whether it is at least zero, which the integer value decides.
\<close>

definition isWhiteSpace :: "char \<Rightarrow> bool" where
  "isWhiteSpace c = ((of_char c :: nat) \<in> {9, 10, 11, 12, 13, 32, 160})"

definition isDigit :: "char \<Rightarrow> bool" where
  "isDigit c = (48 \<le> (of_char c :: nat) \<and> (of_char c :: nat) \<le> 57)"

definition digitsValue :: "string \<Rightarrow> int" where
  "digitsValue ds = foldl (\<lambda>acc c. acc * 10 + (int (of_char c) - 48)) 0 ds"

definition parseInt :: "string \<Rightarrow> int option" where
  "parseInt str =
     (let s = dropWhile isWhiteSpace str;
          sign = (case s of [] \<Rightarrow> 1 | c # cs \<Rightarrow> if c = CHR ''-'' then - 1 else (1 :: int));
          r = (case s of [] \<Rightarrow> []
               | c # cs \<Rightarrow> if c = CHR ''-'' \<or> c = CHR ''+'' then cs else s);
          ds = takeWhile isDigit r
      in if ds = [] then None else Some (sign * digitsValue ds))"

section \<open>Focusability classifier (\<open>isFocusable.ts\<close>)\<close>

text \<open>
  The test both the element's own check and the ancestor loop apply to the inline
  style: \<open>style?.display === 'none' || style?.visibility === 'hidden'\<close>.
\<close>

definition styleHides :: "element \<Rightarrow> bool" where
  "styleHides el =
     (case style el of None \<Rightarrow> False
      | Some st \<Rightarrow> display st = ''none'' \<or> visibility st = ''hidden'')"

text \<open>
  The \<open>while (parent)\<close> loop of \<open>isFocusable\<close>, on the loop variable \<open>parent\<close>:
  \<open>True\<close> when the loop leaves through its \<open>return false\<close>.
\<close>

function parentLoop :: "element option \<Rightarrow> bool" where
  "parentLoop parent =
     (case parent of
        None \<Rightarrow> False
      | Some p \<Rightarrow>
          if getAttribute p ''aria-hidden'' = Some ''true'' \<or> hasAttribute p ''hidden''
             \<or> styleHides p
          then True
          else parentLoop (parentElement p))"
  by pat_completeness auto
termination
proof (relation "measure (size_option size)")
  show "wf (measure (size_option (size :: element \<Rightarrow> nat)))"
    by simp
next
  fix parent :: "element option" and p :: element
  assume "parent = Some p"
  then show "(parentElement p, parent) \<in> measure (size_option size)"
    by (cases p) simp
qed

declare parentLoop.simps [simp del]

definition isFocusable :: "element option \<Rightarrow> bool" where
  "isFocusable element =
     (case element of
        None \<Rightarrow> False
      | Some el \<Rightarrow>
          if \<not> isConnected el then False
          else if getAttribute el ''tabindex'' = Some ''-1'' then False
          else if hasAttribute el ''hidden'' \<or> styleHides el then False
          else if getAttribute el ''aria-hidden'' = Some ''true'' then False
          else if disabled el then False
          else if parentLoop (parentElement el) then False
          else
            let tagName = toLowerCase (tagName el);
                tabIndex = getAttribute el ''tabindex''
            in
              if (case tabIndex of
                    None \<Rightarrow> False
                  | Some t \<Rightarrow>
                      t \<noteq> ''-1'' \<and> (case parseInt t of None \<Rightarrow> False | Some parsed \<Rightarrow> parsed \<ge> 0))
              then True
              else if tagName = ''a'' \<or> tagName = ''area'' then hasAttribute el ''href''
              else if tagName = ''input'' then type el \<noteq> ''hidden''
              else if tagName = ''textarea'' \<or> tagName = ''select'' \<or> tagName = ''summary''
                      \<or> tagName = ''button'' then True
              else if tagName = ''audio'' \<or> tagName = ''video'' then hasAttribute el ''controls''
              else if tagName = ''details'' then hasAttribute el ''open''
              else getAttribute el ''contenteditable'' = Some ''true'')"

definition isTabbable :: "element option \<Rightarrow> bool" where
  "isTabbable element =
     (if \<not> isFocusable element then False
      else
        (case element of
           None \<Rightarrow> True
         | Some el \<Rightarrow>
             if getAttribute el ''tabindex'' = Some ''-1'' then False
             else
               let tagName = toLowerCase (tagName el) in
                 if tagName = ''a'' \<or> tagName = ''area'' then hasAttribute el ''href''
                 else if tagName = ''input'' then \<not> disabled el \<and> type el \<noteq> ''hidden''
                 else if tagName = ''button'' \<or> tagName = ''select'' \<or> tagName = ''textarea''
                 then \<not> disabled el
                 else True))"

text \<open>The ancestors of an element, nearest first, along \<open>parentElement\<close>.\<close>

function ancestors :: "element \<Rightarrow> element list" where
  "ancestors el =
     (case parentElement el of None \<Rightarrow> [] | Some p \<Rightarrow> p # ancestors p)"
  by pat_completeness auto
termination
proof (relation "measure size")
  show "wf (measure (size :: element \<Rightarrow> nat))"
    by simp
next
  fix el p :: element
  assume "parentElement el = Some p"
  then show "(p, el) \<in> measure size"
    by (cases el) simp
qed

declare ancestors.simps [simp del]

text \<open>
  The hidden markers the classifier looks for: the \<open>hidden\<close> attribute, an inline
  style with \<open>display: none\<close> or \<open>visibility: hidden\<close>, or
  \<open>aria-hidden="true"\<close>.
\<close>

definition hiddenMarker :: "element \<Rightarrow> bool" where
  "hiddenMarker p =
     (hasAttribute p ''hidden''
      \<or> (case style p of None \<Rightarrow> False | Some st \<Rightarrow> display st = ''none'')
      \<or> (case style p of None \<Rightarrow> False | Some st \<Rightarrow> visibility st = ''hidden'')
      \<or> getAttribute p ''aria-hidden'' = Some ''true'')"

text \<open>
  An element that is hidden as the page has it: the \<open>hidden\<close> attribute, a style of
  \<open>display: none\<close> or \<open>visibility: hidden\<close> wherever it is declared (the computed
  style), or \<open>aria-hidden="true"\<close>.
\<close>

definition hiddenElement :: "element \<Rightarrow> bool" where
  "hiddenElement p =
     (hasAttribute p ''hidden''
      \<or> display (computedStyle p) = ''none''
      \<or> visibility (computedStyle p) = ''hidden''
      \<or> getAttribute p ''aria-hidden'' = Some ''true'')"

section \<open>Enumerator (\<open>getFocusableElements.ts\<close>)\<close>

subsection \<open>Selectors and \<open>querySelectorAll\<close>\<close>

text \<open>
  A selector string is a comma-separated list of compound selectors; the empty list is
  the empty string. Only the forms the library itself writes are modelled: \<open>*\<close>,
  \<open>tag\<close>, \<open>[attr]\<close>, \<open>[attr="value"]\<close>, \<open>tag[attr]\<close>. Type selectors match the
  tag name without regard to case.
\<close>

datatype compound =
    Universal
  | TypeSel string
  | AttrSel string
  | AttrEqSel string string
  | TypeAttrSel string string

type_synonym selector = "compound list"

fun matchesCompound :: "compound \<Rightarrow> element \<Rightarrow> bool" where
  "matchesCompound Universal el = True"
| "matchesCompound (TypeSel t) el = (toLowerCase (tagName el) = t)"
| "matchesCompound (AttrSel a) el = hasAttribute el a"
| "matchesCompound (AttrEqSel a v) el = (getAttribute el a = Some v)"
| "matchesCompound (TypeAttrSel t a) el = (toLowerCase (tagName el) = t \<and> hasAttribute el a)"

definition matches :: "selector \<Rightarrow> element \<Rightarrow> bool" where
  "matches sel el = list_ex (\<lambda>c. matchesCompound c el) sel"

text \<open>
  A container is what \<open>querySelectorAll\<close> is called on. \<open>Container ds\<close> is an
  \<open>Element\<close>, \<open>Document\<close> or \<open>ShadowRoot\<close> whose descendants, in document order, are
  \<open>ds\<close>. \<open>PartialObject\<close> is an object whose \<open>querySelectorAll\<close> throws (the partial
  mock of the test suite). The empty selector string is a \<open>SyntaxError\<close>.
\<close>

datatype container = Container (descendants: "element list") | PartialObject

definition querySelectorAll :: "container \<Rightarrow> selector \<Rightarrow> exn + element list" where
  "querySelectorAll c sel =
     (case c of
        PartialObject \<Rightarrow> Inl Error
      | Container ds \<Rightarrow> if sel = [] then Inl SyntaxError else Inr (filter (matches sel) ds))"

definition POTENTIALLY_FOCUSABLE_SELECTORS :: selector where
  "POTENTIALLY_FOCUSABLE_SELECTORS =
     [TypeAttrSel ''a'' ''href'',
      TypeAttrSel ''area'' ''href'',
      TypeSel ''button'',
      TypeSel ''input'',
      TypeSel ''select'',
      TypeSel ''textarea'',
      TypeSel ''summary'',
      AttrSel ''tabindex'',
      AttrEqSel ''contenteditable'' ''true'',
      TypeAttrSel ''audio'' ''controls'',
      TypeAttrSel ''video'' ''controls'',
      TypeAttrSel ''details'' ''open'']"

subsection \<open>Numbers and \<open>Array.prototype.sort\<close>\<close>

text \<open>
  A JavaScript number is \<open>NaN\<close>, an infinity or a finite value. The comparator of the
  enumerator only tests \<open>> 0\<close> and subtracts two positive numbers; for these the sign of
  the floating-point result is the sign of the exact one, so finite values are kept as
  rationals. The conversion \<open>Number(string)\<close> itself is a parameter of the enumerator
  (written \<open>Number\<close>): every theorem holds for whatever the conversion returns.
\<close>

datatype number = NaN | Finite rat | Infinity | NegInfinity

fun positive :: "number \<Rightarrow> bool" where
  "positive (Finite r) = (r > 0)"
| "positive Infinity = True"
| "positive NaN = False"
| "positive NegInfinity = False"

fun subtract :: "number \<Rightarrow> number \<Rightarrow> number" where
  "subtract (Finite a) (Finite b) = Finite (a - b)"
| "subtract NaN y = NaN"
| "subtract x NaN = NaN"
| "subtract Infinity Infinity = NaN"
| "subtract NegInfinity NegInfinity = NaN"
| "subtract Infinity y = Infinity"
| "subtract NegInfinity y = NegInfinity"
| "subtract (Finite a) Infinity = NegInfinity"
| "subtract (Finite a) NegInfinity = Infinity"

text \<open>\<open>Number(el.getAttribute('tabindex') || '0')\<close>.\<close>

definition tabIndexOf :: "(string \<Rightarrow> number) \<Rightarrow> element \<Rightarrow> number" where
  "tabIndexOf Number el =
     Number (case getAttribute el ''tabindex'' of
               None \<Rightarrow> ''0''
             | Some v \<Rightarrow> if v = [] then ''0'' else v)"

text \<open>The comparator passed to \<open>sort\<close>.\<close>

definition compareFn :: "(string \<Rightarrow> number) \<Rightarrow> element \<Rightarrow> element \<Rightarrow> number" where
  "compareFn Number a b =
     (let aTabIndex = tabIndexOf Number a;
          bTabIndex = tabIndexOf Number b
      in if positive aTabIndex \<and> positive bTabIndex then subtract aTabIndex bTabIndex
         else if positive aTabIndex then Finite (- 1)
         else if positive bTabIndex then Finite 1
         else Finite 0)"

text \<open>
  \<open>Array.prototype.sort\<close> is a stable sort: an element moves behind another only where
  the comparator's result is greater than zero (a \<open>NaN\<close> result counts as zero). The
  model is the stable insertion sort. The comparator above orders consistently (positive
  indices by value, everything else tied behind them), so every stable sort returns the
  list this one returns.
\<close>

fun insertSorted :: "('a \<Rightarrow> 'a \<Rightarrow> number) \<Rightarrow> 'a \<Rightarrow> 'a list \<Rightarrow> 'a list" where
  "insertSorted cmp x [] = [x]"
| "insertSorted cmp x (y # ys) =
     (if positive (cmp x y) then y # insertSorted cmp x ys else x # y # ys)"

definition Array_sort :: "('a \<Rightarrow> 'a \<Rightarrow> number) \<Rightarrow> 'a list \<Rightarrow> 'a list" where
  "Array_sort cmp xs = foldr (insertSorted cmp) xs []"

subsection \<open>\<open>getFocusableElements\<close>\<close>

record GetFocusableElementsOptions =
  onlyTabbable :: "bool option"
  includeShadowDOM :: "bool option"

record document =
  activeElement :: "element option"
  body :: "element option"

datatype console_entry = ConsoleError string exn | ConsoleWarn string

text \<open>
  \<open>Array.from(...).filter((el) => el.shadowRoot?.mode === 'open')\<close>: reading
  \<open>shadowRoot\<close> may throw, which ends the whole filter.
\<close>

fun filterOpenShadowRoots :: "element list \<Rightarrow> exn + element list" where
  "filterOpenShadowRoots [] = Inr []"
| "filterOpenShadowRoots (el # rest) =
     (case shadowRoot el of
        Inl error \<Rightarrow> Inl error
      | Inr sr \<Rightarrow>
          (case filterOpenShadowRoots rest of
             Inl error \<Rightarrow> Inl error
           | Inr kept \<Rightarrow>
               Inr (if (case sr of None \<Rightarrow> False | Some r \<Rightarrow> mode r = ''open'')
                    then el # kept else kept)))"

lemma size_list_filter_le: "size_list f (filter P xs) \<le> size_list f xs"
  by (induction xs) auto

lemma filterOpenShadowRoots_size:
  "filterOpenShadowRoots xs = Inr ys \<Longrightarrow> size_list f ys \<le> size_list f xs"
proof (induction xs arbitrary: ys)
  case Nil
  then show ?case by simp
next
  case (Cons el rest)
  then show ?case
    by (fastforce split: sum.splits if_splits)
qed

lemma querySelectorAll_size:
  "querySelectorAll c sel = Inr xs \<Longrightarrow> size_list f xs \<le> size_list f (descendants c)"
  by (cases c) (auto simp: querySelectorAll_def size_list_filter_le split: if_splits)

lemma shadowRoot_size:
  "shadowRoot el = Inr (Some sr) \<Longrightarrow> size_list size (shadowDescendants sr) < size el"
  by (cases el; cases sr) simp

lemma shadow_candidates_size:
  assumes "querySelectorAll c sel = Inr allElements"
    and "filterOpenShadowRoots allElements = Inr elementsWithShadowRoots"
  shows "size_list size elementsWithShadowRoots < Suc (size_list size (descendants c))"
proof -
  have "size_list size elementsWithShadowRoots \<le> size_list size allElements"
    using assms(2) by (rule filterOpenShadowRoots_size)
  also have "\<dots> \<le> size_list size (descendants c)"
    using assms(1) by (rule querySelectorAll_size)
  finally show ?thesis
    by simp
qed

text \<open>
  The function returns its completion and the console entries it wrote: \<open>Inr\<close> a list
  for a normal return, \<open>Inl\<close> an exception that leaves the function. \<open>doc\<close> is the
  global \<open>document\<close>, \<open>None\<close> where \<open>typeof document === 'undefined'\<close>.
  \<open>shadowLoop\<close> is the \<open>for (const elementWithShadow of elementsWithShadowRoots)\<close>
  loop; it returns what the loop pushed. The loop reads \<open>shadowRoot\<close> once more.
\<close>

function getFocusableElements ::
    "(string \<Rightarrow> number) \<Rightarrow> container option \<Rightarrow> GetFocusableElementsOptions \<Rightarrow> document option
      \<Rightarrow> (exn + element list) \<times> console_entry list"
  and shadowLoop ::
    "(string \<Rightarrow> number) \<Rightarrow> GetFocusableElementsOptions \<Rightarrow> document option \<Rightarrow> element list
      \<Rightarrow> (exn + element list) \<times> console_entry list"
where
  "getFocusableElements Number container options doc =
     (case container of
        None \<Rightarrow> (Inr [], [])
      | Some c \<Rightarrow>
          if doc = None then (Inr [], [])
          else
            (case
               (case querySelectorAll c POTENTIALLY_FOCUSABLE_SELECTORS of
                  Inl error \<Rightarrow> (Inl error, [])
                | Inr potentiallyFocusableElements \<Rightarrow>
                    (case
                       (if (case includeShadowDOM options of None \<Rightarrow> True | Some b \<Rightarrow> b)
                        then
                          (case querySelectorAll c [Universal] of
                             Inl error \<Rightarrow> (Inl error, [])
                           | Inr allElements \<Rightarrow>
                               (case filterOpenShadowRoots allElements of
                                  Inl error \<Rightarrow> (Inl error, [])
                                | Inr elementsWithShadowRoots \<Rightarrow>
                                    shadowLoop Number options doc elementsWithShadowRoots))
                        else (Inr [], []))
                     of
                       (Inl error, written) \<Rightarrow> (Inl error, written)
                     | (Inr pushed, written) \<Rightarrow>
                         (Inr (Array_sort (compareFn Number)
                                (filter
                                  (\<lambda>el. if (case onlyTabbable options of None \<Rightarrow> False | Some b \<Rightarrow> b)
                                        then isTabbable (Some el) else isFocusable (Some el))
                                  (potentiallyFocusableElements @ pushed))),
                          written)))
             of
               (Inl error, written) \<Rightarrow>
                 (Inr [], written @ [ConsoleError ''Error in getFocusableElements:'' error])
             | (Inr result, written) \<Rightarrow> (Inr result, written)))"
| "shadowLoop Number options doc [] = (Inr [], [])"
| "shadowLoop Number options doc (elementWithShadow # rest) =
     (case shadowRoot elementWithShadow of
        Inl error \<Rightarrow> (Inl error, [])
      | Inr None \<Rightarrow> shadowLoop Number options doc rest
      | Inr (Some sr) \<Rightarrow>
          (case getFocusableElements Number (Some (Container (shadowDescendants sr))) options doc of
             (Inl error, written) \<Rightarrow> (Inl error, written)
           | (Inr shadowFocusableElements, written) \<Rightarrow>
               (case shadowLoop Number options doc rest of
                  (Inl error, written') \<Rightarrow> (Inl error, written @ written')
                | (Inr pushed, written') \<Rightarrow>
                    (Inr (shadowFocusableElements @ pushed), written @ written'))))"
  by pat_completeness auto
termination
proof (relation
    "measure (\<lambda>x. case x of
        Inl (N, container, opts, doc) \<Rightarrow>
          (case container of None \<Rightarrow> 0 | Some c \<Rightarrow> Suc (size_list size (descendants c)))
      | Inr (N, opts, doc, els) \<Rightarrow> size_list size els)", goal_cases)
  case 1
  show ?case by simp
next
  case 2
  then show ?case
    by (auto intro: shadow_candidates_size)
next
  case 3
  then show ?case by simp
next
  case 4
  then show ?case
    by (auto intro!: trans_less_add1 shadowRoot_size)
next
  case 5
  then show ?case by simp
qed

declare getFocusableElements.simps [simp del]

text \<open>
  The \<open>try\<close> block of \<open>getFocusableElements\<close> up to and including the
  \<open>filter\<close>: the candidates that are then sorted, or the exception thrown on the way,
  with the console entries of the nested calls.
\<close>

definition filteredCandidates ::
    "(string \<Rightarrow> number) \<Rightarrow> container \<Rightarrow> GetFocusableElementsOptions \<Rightarrow> document option
      \<Rightarrow> (exn + element list) \<times> console_entry list" where
  "filteredCandidates Number c options doc =
     (case querySelectorAll c POTENTIALLY_FOCUSABLE_SELECTORS of
        Inl error \<Rightarrow> (Inl error, [])
      | Inr potentiallyFocusableElements \<Rightarrow>
          (case
             (if (case includeShadowDOM options of None \<Rightarrow> True | Some b \<Rightarrow> b)
              then
                (case querySelectorAll c [Universal] of
                   Inl error \<Rightarrow> (Inl error, [])
                 | Inr allElements \<Rightarrow>
                     (case filterOpenShadowRoots allElements of
                        Inl error \<Rightarrow> (Inl error, [])
                      | Inr elementsWithShadowRoots \<Rightarrow>
                          shadowLoop Number options doc elementsWithShadowRoots))
              else (Inr [], []))
           of
             (Inl error, written) \<Rightarrow> (Inl error, written)
           | (Inr pushed, written) \<Rightarrow>
               (Inr (filter
                      (\<lambda>el. if (case onlyTabbable options of None \<Rightarrow> False | Some b \<Rightarrow> b)
                            then isTabbable (Some el) else isFocusable (Some el))
                      (potentiallyFocusableElements @ pushed)),
                written)))"

subsection \<open>The \<open>options\<close> argument as the caller passes it\<close>

text \<open>
  \<open>getFocusableElements\<close> above takes the options as the destructuring
  \<open>const { onlyTabbable = false, includeShadowDOM = true } = options\<close> leaves them. The
  value a caller passes is \<open>undefined\<close> (or nothing: the parameter's default \<open>{}\<close>
  applies), \<open>null\<close>, or an object; reading a property of the object gives a value
  (\<open>None\<close> for \<open>undefined\<close>) or throws, as a getter may. Destructuring \<open>null\<close> is a
  \<open>TypeError\<close>. Reading a property gives the same result every time, so the nested
  calls on shadow roots destructure the value as the outer call did.
\<close>

datatype options_value =
    Undefined
  | Null
  | OptionsObject (onlyTabbableProperty: "exn + bool option")
      (includeShadowDOMProperty: "exn + bool option")

definition destructureOptions :: "options_value \<Rightarrow> exn + GetFocusableElementsOptions" where
  "destructureOptions optionsValue =
     (case optionsValue of
        Undefined \<Rightarrow> Inr \<lparr>onlyTabbable = None, includeShadowDOM = None\<rparr>
      | Null \<Rightarrow> Inl TypeError
      | OptionsObject first second \<Rightarrow>
          (case first of
             Inl error \<Rightarrow> Inl error
           | Inr onlyTabbable' \<Rightarrow>
               (case second of
                  Inl error \<Rightarrow> Inl error
                | Inr includeShadowDOM' \<Rightarrow>
                    Inr \<lparr>onlyTabbable = onlyTabbable', includeShadowDOM = includeShadowDOM'\<rparr>)))"

text \<open>
  The call of \<open>getFocusableElements\<close> on the value passed: the test of the container
  comes first, then the destructuring, outside the \<open>try\<close> block, then the rest of the
  function.
\<close>

definition callGetFocusableElements ::
    "(string \<Rightarrow> number) \<Rightarrow> container option \<Rightarrow> options_value \<Rightarrow> document option
      \<Rightarrow> (exn + element list) \<times> console_entry list" where
  "callGetFocusableElements Number container optionsValue doc =
     (case container of
        None \<Rightarrow> (Inr [], [])
      | Some c \<Rightarrow>
          (case destructureOptions optionsValue of
             Inl error \<Rightarrow> (Inl error, [])
           | Inr options \<Rightarrow> getFocusableElements Number (Some c) options doc))"



section \<open>The page state and \<open>HTMLElement.focus\<close>\<close>

text \<open>
  The state the library reads and writes: the global \<open>document\<close> (\<open>None\<close> where
  \<open>typeof document === 'undefined'\<close>), the module variable \<open>savedFocusElement\<close>, the
  closure variable \<open>savedElement\<close> of every focus manager (by the manager's number),
  the console, and the record of every call of a \<open>focus\<close> method with the
  \<open>preventScroll\<close> option it was given (\<open>None\<close> for a call without options).

  A state is a snapshot: an element value in it, also the one a slot refers to, gives
  what the element offers at that moment. What the page does to its elements between
  two calls of the library is a different state, not a step of the model.
\<close>

record state =
  document :: "document option"
  savedFocusElement :: "element option"
  savedElement :: "nat \<Rightarrow> element option"
  managerCount :: nat
  console :: "console_entry list"
  focusCalls :: "(element \<times> bool option) list"

text \<open>\<open>el.focus(options)\<close>: the call is recorded, then the element's method runs.\<close>

definition invokeFocus :: "element \<Rightarrow> bool option \<Rightarrow> state \<Rightarrow> (exn + unit) \<times> state" where
  "invokeFocus el preventScroll s =
     (let s1 = s\<lparr>focusCalls := focusCalls s @ [(el, preventScroll)]\<rparr> in
        case focus el of
          Throws \<Rightarrow> (Inl Error, s1)
        | Ignores \<Rightarrow> (Inr (), s1)
        | Accepts \<Rightarrow>
            (Inr (),
             s1\<lparr>document := map_option (\<lambda>d. d\<lparr>activeElement := Some el\<rparr>) (document s1)\<rparr>))"

text \<open>\<open>document.activeElement\<close>, where the document exists.\<close>

definition currentActiveElement :: "state \<Rightarrow> element option" where
  "currentActiveElement s = (case document s of None \<Rightarrow> None | Some d \<Rightarrow> activeElement d)"

section \<open>First-focus director (\<open>focusFirstElement.ts\<close>)\<close>

record FocusFirstElementOptions = GetFocusableElementsOptions +
  preventScroll :: "bool option"

definition focusFirstElement ::
    "(string \<Rightarrow> number) \<Rightarrow> container option \<Rightarrow> FocusFirstElementOptions \<Rightarrow> state
      \<Rightarrow> (exn + element option) \<times> state" where
  "focusFirstElement Number container options s =
     (case container of
        None \<Rightarrow> (Inr None, s)
      | Some c \<Rightarrow>
          let onlyTabbable' = (case onlyTabbable options of None \<Rightarrow> True | Some b \<Rightarrow> b);
              includeShadowDOM' = (case includeShadowDOM options of None \<Rightarrow> True | Some b \<Rightarrow> b);
              preventScroll' = (case preventScroll options of None \<Rightarrow> True | Some b \<Rightarrow> b)
          in
            if document s = None then (Inr None, s)
            else
              (case getFocusableElements Number (Some c)
                      \<lparr>onlyTabbable = Some onlyTabbable', includeShadowDOM = Some includeShadowDOM'\<rparr>
                      (document s) of
                 (Inl error, written) \<Rightarrow> (Inl error, s\<lparr>console := console s @ written\<rparr>)
               | (Inr elements, written) \<Rightarrow>
                   let s1 = s\<lparr>console := console s @ written\<rparr> in
                     (case elements of
                        [] \<Rightarrow> (Inr None, s1)
                      | first # others \<Rightarrow>
                          (case invokeFocus first (Some preventScroll') s1 of
                             (Inr u, s2) \<Rightarrow> (Inr (Some first), s2)
                           | (Inl error, s2) \<Rightarrow>
                               (Inr None,
                                s2\<lparr>console := console s2
                                     @ [ConsoleError ''Error focusing element:'' error]\<rparr>)))))"

text \<open>
  The \<open>for (const element of elements)\<close> loop of \<open>focusFirstElementBySelector\<close>:
  \<open>Some\<close> the element the loop returned, \<open>None\<close> when it ran to its end.
\<close>

fun selectorLoop :: "bool \<Rightarrow> element list \<Rightarrow> state \<Rightarrow> element option \<times> state" where
  "selectorLoop preventScroll' [] s = (None, s)"
| "selectorLoop preventScroll' (element # rest) s =
     (case invokeFocus element (Some preventScroll') s of
        (Inl e, s1) \<Rightarrow> selectorLoop preventScroll' rest s1
      | (Inr u, s1) \<Rightarrow>
          if currentActiveElement s1 = Some element then (Some element, s1)
          else selectorLoop preventScroll' rest s1)"

definition focusFirstElementBySelector ::
    "container option \<Rightarrow> selector \<Rightarrow> FocusFirstElementOptions \<Rightarrow> state
      \<Rightarrow> (exn + element option) \<times> state" where
  "focusFirstElementBySelector container selector options s =
     (case container of
        None \<Rightarrow> (Inr None, s)
      | Some c \<Rightarrow>
          if selector = [] then (Inr None, s)
          else
            let preventScroll' = (case preventScroll options of None \<Rightarrow> True | Some b \<Rightarrow> b) in
              if document s = None then (Inr None, s)
              else
                (case querySelectorAll c selector of
                   Inl error \<Rightarrow>
                     (Inr None,
                      s\<lparr>console := console s
                           @ [ConsoleError ''Error in focusFirstElementBySelector:'' error]\<rparr>)
                 | Inr elements \<Rightarrow>
                     (case selectorLoop preventScroll' elements s of
                        (found, s1) \<Rightarrow> (Inr found, s1))))"

section \<open>Focus-state keeper (\<open>returnFocus.ts\<close>)\<close>

text \<open>
  \<open>fallbackElement\<close> distinguishes an absent property (\<open>None\<close>, which takes the
  default \<open>document.body\<close>) from an explicit \<open>null\<close> (\<open>Some None\<close>).
\<close>

record ReturnFocusOptions =
  preventScroll :: "bool option"
  fallbackElement :: "element option option"

definition saveFocus :: "state \<Rightarrow> element option \<times> state" where
  "saveFocus s =
     (case document s of
        None \<Rightarrow> (None, s)
      | Some d \<Rightarrow> (activeElement d, s\<lparr>savedFocusElement := activeElement d\<rparr>))"

text \<open>
  In the \<open>try\<close> block, \<open>Inl\<close> is a thrown exception, \<open>Inr (Some r)\<close> a
  \<open>return r\<close>, and \<open>Inr None\<close> the block running to its end.
\<close>

definition returnFocus ::
    "ReturnFocusOptions \<Rightarrow> state \<Rightarrow> (exn + element option) \<times> state" where
  "returnFocus options s =
     (case document s of
        None \<Rightarrow> (Inr None, s)
      | Some d \<Rightarrow>
          let preventScroll' = (case preventScroll options of None \<Rightarrow> True | Some b \<Rightarrow> b);
              fallbackElement' = (case fallbackElement options of None \<Rightarrow> body d | Some fb \<Rightarrow> fb)
          in
            (case savedFocusElement s of
               None \<Rightarrow>
                 (case fallbackElement' of
                    None \<Rightarrow> (Inr None, s)
                  | Some fb \<Rightarrow>
                      (case invokeFocus fb (Some preventScroll') s of
                         (Inl error, s1) \<Rightarrow> (Inl error, s1)
                       | (Inr u, s1) \<Rightarrow> (Inr (Some fb), s1)))
             | Some saved \<Rightarrow>
                 (case
                    (case invokeFocus saved (Some preventScroll') s of
                       (Inl error, s1) \<Rightarrow> (Inl error, s1)
                     | (Inr u, s1) \<Rightarrow>
                         if currentActiveElement s1 = Some saved
                         then (Inr (Some (Some saved)), s1\<lparr>savedFocusElement := None\<rparr>)
                         else
                           (case fallbackElement' of
                              None \<Rightarrow> (Inr None, s1)
                            | Some fb \<Rightarrow>
                                (case invokeFocus fb (Some preventScroll') s1 of
                                   (Inl error, s2) \<Rightarrow> (Inl error, s2)
                                 | (Inr u, s2) \<Rightarrow> (Inr (Some (Some fb)), s2))))
                  of
                    (Inr (Some returned), s1) \<Rightarrow> (Inr returned, s1)
                  | (Inr None, s1) \<Rightarrow> (Inr None, s1\<lparr>savedFocusElement := None\<rparr>)
                  | (Inl error, s1) \<Rightarrow>
                      let s2 = s1\<lparr>console := console s1
                                   @ [ConsoleError ''Error returning focus:'' error]\<rparr>
                      in
                        (case fallbackElement' of
                           None \<Rightarrow> (Inr None, s2\<lparr>savedFocusElement := None\<rparr>)
                         | Some fb \<Rightarrow>
                             (case invokeFocus fb (Some preventScroll') s2 of
                                (Inr u, s3) \<Rightarrow> (Inr (Some fb), s3)
                              | (Inl fallbackError, s3) \<Rightarrow>
                                  (Inr None,
                                   s3\<lparr>console := console s3
                                        @ [ConsoleError ''Error focusing fallback element:''
                                             fallbackError],
                                      savedFocusElement := None\<rparr>))))))"

subsection \<open>\<open>createFocusManager\<close>\<close>

text \<open>
  Every call of \<open>createFocusManager\<close> makes a new closure variable \<open>savedElement\<close>,
  initially \<open>null\<close>; the returned pair of functions is named by the variable's number.
\<close>

definition createFocusManager :: "state \<Rightarrow> nat \<times> state" where
  "createFocusManager s =
     (managerCount s,
      s\<lparr>savedElement := (savedElement s)(managerCount s := None),
        managerCount := Suc (managerCount s)\<rparr>)"

definition manager_saveFocus :: "nat \<Rightarrow> state \<Rightarrow> element option \<times> state" where
  "manager_saveFocus m s =
     (case document s of
        None \<Rightarrow> (None, s)
      | Some d \<Rightarrow> (activeElement d, s\<lparr>savedElement := (savedElement s)(m := activeElement d)\<rparr>))"

definition manager_returnFocus ::
    "nat \<Rightarrow> ReturnFocusOptions \<Rightarrow> state \<Rightarrow> (exn + element option) \<times> state" where
  "manager_returnFocus m options s =
     (case document s of
        None \<Rightarrow> (Inr None, s)
      | Some d \<Rightarrow>
          let preventScroll' = (case preventScroll options of None \<Rightarrow> True | Some b \<Rightarrow> b);
              fallbackElement' = (case fallbackElement options of None \<Rightarrow> body d | Some fb \<Rightarrow> fb)
          in
            (case savedElement s m of
               None \<Rightarrow>
                 (case fallbackElement' of
                    None \<Rightarrow> (Inr None, s)
                  | Some fb \<Rightarrow>
                      (case invokeFocus fb (Some preventScroll') s of
                         (Inl error, s1) \<Rightarrow> (Inl error, s1)
                       | (Inr u, s1) \<Rightarrow> (Inr (Some fb), s1)))
             | Some saved \<Rightarrow>
                 (case
                    (case invokeFocus saved (Some preventScroll') s of
                       (Inl error, s1) \<Rightarrow> (Inl error, s1)
                     | (Inr u, s1) \<Rightarrow>
                         if currentActiveElement s1 = Some saved
                         then (Inr (Some (Some saved)),
                               s1\<lparr>savedElement := (savedElement s1)(m := None)\<rparr>)
                         else
                           (case fallbackElement' of
                              None \<Rightarrow> (Inr None, s1)
                            | Some fb \<Rightarrow>
                                (case invokeFocus fb (Some preventScroll') s1 of
                                   (Inl error, s2) \<Rightarrow> (Inl error, s2)
                                 | (Inr u, s2) \<Rightarrow> (Inr (Some (Some fb)), s2))))
                  of
                    (Inr (Some returned), s1) \<Rightarrow> (Inr returned, s1)
                  | (Inr None, s1) \<Rightarrow>
                      (Inr None, s1\<lparr>savedElement := (savedElement s1)(m := None)\<rparr>)
                  | (Inl error, s1) \<Rightarrow>
                      let s2 = s1\<lparr>console := console s1
                                   @ [ConsoleError ''Error returning focus in focus manager:'' error]\<rparr>
                      in
                        (case fallbackElement' of
                           None \<Rightarrow> (Inr None, s2\<lparr>savedElement := (savedElement s2)(m := None)\<rparr>)
                         | Some fb \<Rightarrow>
                             (case invokeFocus fb (Some preventScroll') s2 of
                                (Inr u, s3) \<Rightarrow> (Inr (Some fb), s3)
                              | (Inl fallbackError, s3) \<Rightarrow>
                                  (Inr None,
                                   s3\<lparr>console := console s3
                                        @ [ConsoleError ''Error focusing fallback element:''
                                             fallbackError],
                                      savedElement := (savedElement s3)(m := None)\<rparr>))))))"

text \<open>
  The two copies of \<open>returnFocus\<close> write different texts when the first
  \<open>focus\<close> call throws; \<open>managerMessage\<close> turns the default instance's entry
  into the manager's.
\<close>

definition managerMessage :: "console_entry \<Rightarrow> console_entry" where
  "managerMessage entry =
     (case entry of
        ConsoleError message error \<Rightarrow>
          if message = ''Error returning focus:''
          then ConsoleError ''Error returning focus in focus manager:'' error
          else ConsoleError message error
      | ConsoleWarn message \<Rightarrow> ConsoleWarn message)"

section \<open>Trap controller: the key handler of \<open>useFocusTrap\<close>\<close>

text \<open>
  \<open>handleKeyDown\<close> closes over the hook's \<open>active\<close> flag, its \<open>containerRef\<close> and
  the \<open>onEscapeKey\<close> callback. \<open>containerRef.current\<close> is \<open>null\<close> or an
  \<open>HTMLElement\<close>, given as the element and its descendants in document order. The
  event records whether \<open>preventDefault\<close> was called. The callback is the caller's
  code: any function of the event and the state.
\<close>

record KeyboardEvent =
  key :: string
  shiftKey :: bool
  defaultPrevented :: bool

record FocusTrap =
  active :: bool
  containerRef :: "(element \<times> element list) option"
  onEscapeKey :: "(KeyboardEvent \<Rightarrow> state \<Rightarrow> (exn + unit) \<times> KeyboardEvent \<times> state) option"

definition handleKeyDown ::
    "(string \<Rightarrow> number) \<Rightarrow> FocusTrap \<Rightarrow> KeyboardEvent \<Rightarrow> state
      \<Rightarrow> (exn + unit) \<times> KeyboardEvent \<times> state" where
  "handleKeyDown Number trap event s =
     (case containerRef trap of
        None \<Rightarrow> (Inr (), event, s)
      | Some (current, currentDescendants) \<Rightarrow>
          if \<not> active trap then (Inr (), event, s)
          else if key event = ''Escape'' \<and> onEscapeKey trap \<noteq> None
          then (case onEscapeKey trap of
                  None \<Rightarrow> (Inr (), event, s)
                | Some callback \<Rightarrow> callback event s)
          else if key event \<noteq> ''Tab'' then (Inr (), event, s)
          else
            (case getFocusableElements Number (Some (Container currentDescendants))
                    \<lparr>onlyTabbable = Some True, includeShadowDOM = None\<rparr> (document s) of
               (Inl error, written) \<Rightarrow> (Inl error, event, s\<lparr>console := console s @ written\<rparr>)
             | (Inr tabbableElements, written) \<Rightarrow>
                 let s1 = s\<lparr>console := console s @ written\<rparr> in
                   if length tabbableElements = 0
                   then
                     (case invokeFocus current None s1 of
                        (completion, s2) \<Rightarrow> (completion, event\<lparr>defaultPrevented := True\<rparr>, s2))
                   else
                     let firstElement = hd tabbableElements;
                         lastElement = last tabbableElements
                     in
                       (case document s1 of
                          None \<Rightarrow> (Inl ReferenceError, event, s1)
                        | Some d \<Rightarrow>
                            if shiftKey event
                            then
                              if activeElement d = Some firstElement
                              then
                                (case invokeFocus lastElement None s1 of
                                   (completion, s2) \<Rightarrow>
                                     (completion, event\<lparr>defaultPrevented := True\<rparr>, s2))
                              else (Inr (), event, s1)
                            else
                              if activeElement d = Some lastElement
                              then
                                (case invokeFocus firstElement None s1 of
                                   (completion, s2) \<Rightarrow>
                                     (completion, event\<lparr>defaultPrevented := True\<rparr>, s2))
                              else (Inr (), event, s1))))"

section \<open>Example documents\<close>

text \<open>
  \<open>htmlElement i tag attrs parent\<close> is a connected, enabled HTML element with an empty
  inline style, displayed and visible, with no shadow root, whose \<open>focus\<close> method
  takes the focus.
\<close>

definition htmlElement ::
    "nat \<Rightarrow> string \<Rightarrow> (string \<times> string) list \<Rightarrow> element option \<Rightarrow> element" where
  "htmlElement i tag attrs parent =
     Element i tag attrs (Some (Style [] [])) (Style ''block'' ''visible'') False [] True Accepts
       parent (Inr None)"

text \<open>A page with a body, nothing focused, nothing saved and an empty console.\<close>

definition pageBody :: element where
  "pageBody = htmlElement 0 ''BODY'' [] None"

definition initialState :: "element option \<Rightarrow> state" where
  "initialState active' =
     \<lparr>document = Some \<lparr>activeElement = active', body = Some pageBody\<rparr>,
      savedFocusElement = None,
      savedElement = (\<lambda>m. None),
      managerCount = 0,
      console = [],
      focusCalls = []\<rparr>"

text \<open>
  \<open>Number\<close> on strings of decimal digits (the empty string is zero); every other
  string is taken to \<open>NaN\<close>. The examples convert only such strings.
\<close>

definition digitsNumber :: "string \<Rightarrow> number" where
  "digitsNumber str =
     (if list_all isDigit str then Finite (of_int (digitsValue str)) else NaN)"

text \<open>
  The fixtures of the classifier's tests: a button inside a \<open>div\<close> with
  \<open>style="display: none;"\<close>, and a button with \<open>tabindex="-1"\<close>.
\<close>

definition hiddenDiv :: element where
  "hiddenDiv =
     Element 1 ''DIV'' [] (Some (Style ''none'' [])) (Style ''none'' ''visible'') False [] True
       Accepts None (Inr None)"

definition buttonInHiddenDiv :: element where
  "buttonInHiddenDiv = htmlElement 2 ''BUTTON'' [] (Some hiddenDiv)"

text \<open>
  A button inside a \<open>div class="hidden"\<close> that a style sheet rule
  \<open>.hidden { display: none }\<close> hides: nothing is declared inline.
\<close>

definition classHiddenDiv :: element where
  "classHiddenDiv =
     Element 4 ''DIV'' [(''class'', ''hidden'')] (Some (Style [] [])) (Style ''none'' ''visible'')
       False [] True Accepts None (Inr None)"

definition buttonInClassHiddenDiv :: element where
  "buttonInClassHiddenDiv = htmlElement 5 ''BUTTON'' [] (Some classHiddenDiv)"

definition buttonMinusOne :: element where
  "buttonMinusOne = htmlElement 3 ''BUTTON'' [(''tabindex'', ''-1'')] None"

text \<open>
  The fixture of the enumerator's shadow DOM test: a button and a host whose open
  shadow root holds a button and a text input.
\<close>

definition shadowButton :: element where
  "shadowButton = htmlElement 12 ''BUTTON'' [(''id'', ''shadow-button'')] None"

definition shadowInput :: element where
  "shadowInput =
     Element 13 ''INPUT'' [(''type'', ''text''), (''id'', ''shadow-input'')] (Some (Style [] []))
       (Style ''block'' ''visible'') False ''text'' True Accepts None (Inr None)"

definition shadowHostParent :: element where
  "shadowHostParent = htmlElement 9 ''DIV'' [(''id'', ''container'')] None"

definition shadowHost :: element where
  "shadowHost =
     Element 11 ''DIV'' [(''id'', ''shadow-host'')] (Some (Style [] []))
       (Style ''block'' ''visible'') False [] True Accepts (Some shadowHostParent)
      (Inr (Some (ShadowRoot ''open'' [shadowButton, shadowInput])))"

definition button1 :: element where
  "button1 = htmlElement 10 ''BUTTON'' [(''id'', ''button1'')] (Some shadowHostParent)"

definition shadowContainer :: container where
  "shadowContainer = Container [button1, shadowHost]"

definition someDocument :: document where
  "someDocument = \<lparr>activeElement = None, body = Some pageBody\<rparr>"

definition shadowOptions :: GetFocusableElementsOptions where
  "shadowOptions = \<lparr>onlyTabbable = None, includeShadowDOM = Some True\<rparr>"

text \<open>
  The options object \<open>{ includeShadowDOM: true }\<close>, and an options object whose
  \<open>onlyTabbable\<close> getter throws.
\<close>

definition shadowOptionsValue :: options_value where
  "shadowOptionsValue = OptionsObject (Inr None) (Inr (Some True))"

definition getterThrows :: options_value where
  "getterThrows = OptionsObject (Inl Error) (Inr None)"

text \<open>
  An element whose \<open>shadowRoot\<close> property throws when read, inside an ordinary
  container.
\<close>

definition probeThrows :: element where
  "probeThrows =
     Element 21 ''DIV'' [] (Some (Style [] [])) (Style ''block'' ''visible'') False [] True
       Accepts None (Inl TypeError)"

definition hostileContainer :: container where
  "hostileContainer = Container [button1, probeThrows]"


definition sortButton1 :: element where
  "sortButton1 = htmlElement 33 ''BUTTON'' [(''id'', ''button1'')] None"





text \<open>
  Saved-focus fixtures. A button that has been removed from the document since it was
  saved (its \<open>focus\<close> does nothing), and a button whose \<open>focus\<close> throws.
  \<open>noOptions\<close> is the call without arguments. \<open>savedState el\<close> is a page on
  which nothing is focused and \<open>el\<close> is in the default slot; \<open>managerState el\<close>
  is the page after \<open>createFocusManager()\<close> and the new manager's
  \<open>saveFocus()\<close> while \<open>el\<close> is focused.
\<close>

definition removedButton :: element where
  "removedButton =
     Element 40 ''BUTTON'' [] (Some (Style [] [])) (Style ''block'' ''visible'') False [] False
       Ignores None (Inr None)"

definition throwingButton :: element where
  "throwingButton =
     Element 41 ''BUTTON'' [] (Some (Style [] [])) (Style ''block'' ''visible'') False [] True
       Throws None (Inr None)"

definition noOptions :: ReturnFocusOptions where
  "noOptions = \<lparr>preventScroll = None, fallbackElement = None\<rparr>"

definition savedState :: "element \<Rightarrow> state" where
  "savedState el = (initialState None)\<lparr>savedFocusElement := Some el\<rparr>"

definition managerState :: "element \<Rightarrow> state" where
  "managerState el = snd (manager_saveFocus 0 (snd (createFocusManager (initialState (Some el)))))"

text \<open>
  The modal of the trap's tests, reduced to its first and last button, and a
  \<open>Tab\<close> key event with or without Shift.
\<close>

definition trapFirst :: element where
  "trapFirst = htmlElement 51 ''BUTTON'' [(''data-testid'', ''first-button'')] None"

definition trapLast :: element where
  "trapLast = htmlElement 52 ''BUTTON'' [(''data-testid'', ''last-button'')] None"

definition modalTrap :: FocusTrap where
  "modalTrap =
     \<lparr>active = True,
      containerRef =
        Some (htmlElement 50 ''DIV'' [(''role'', ''dialog'')] None, [trapFirst, trapLast]),
      onEscapeKey = None\<rparr>"

definition tabKey :: "bool \<Rightarrow> KeyboardEvent" where
  "tabKey shift = \<lparr>key = ''Tab'', shiftKey = shift, defaultPrevented = False\<rparr>"

text \<open>
  A dialog whose first button the classifier accepts while the browser does not focus it
  (a style sheet hides it; the classifier reads the inline style only), followed by a
  submit button. \<open>firstOptions\<close> is the call without options.
\<close>

definition styledAwayButton :: element where
  "styledAwayButton =
     Element 61 ''BUTTON'' [] (Some (Style [] [])) (Style ''none'' ''visible'') False [] True
       Ignores None (Inr None)"

definition submitButton :: element where
  "submitButton = htmlElement 62 ''BUTTON'' [(''type'', ''submit'')] None"

definition dialogContainer :: container where
  "dialogContainer = Container [styledAwayButton, submitButton]"

definition firstOptions :: FocusFirstElementOptions where
  "firstOptions =
     \<lparr>onlyTabbable = None, includeShadowDOM = None,
      FocusFirstElementOptions.preventScroll = None\<rparr>"

section \<open>Properties\<close>

subsection \<open>Classifier\<close>

lemma parentLoop_None: "parentLoop None = False"
  by (subst parentLoop.simps) simp

lemma parentLoop_Some:
  "parentLoop (Some p) =
     (getAttribute p ''aria-hidden'' = Some ''true'' \<or> hasAttribute p ''hidden''
      \<or> styleHides p \<or> parentLoop (parentElement p))"
  by (subst parentLoop.simps) simp

lemma ancestors_None: "parentElement el = None \<Longrightarrow> ancestors el = []"
  by (subst ancestors.simps) simp

lemma ancestors_Some: "parentElement el = Some p \<Longrightarrow> ancestors el = p # ancestors p"
  by (subst ancestors.simps) simp

lemma hiddenMarker_loop_test:
  "hiddenMarker p =
     (getAttribute p ''aria-hidden'' = Some ''true'' \<or> hasAttribute p ''hidden'' \<or> styleHides p)"
  by (auto simp: hiddenMarker_def styleHides_def split: option.splits)

lemma parentLoop_ancestors:
  "parentLoop (parentElement el) = (\<exists>p \<in> set (ancestors el). hiddenMarker p)"
proof (induction el rule: ancestors.induct)
  case (1 el)
  show ?case
  proof (cases "parentElement el")
    case None
    then show ?thesis
      by (simp add: parentLoop_None ancestors_None)
  next
    case (Some p)
    with 1 show ?thesis
      by (simp add: parentLoop_Some ancestors_Some hiddenMarker_loop_test)
  qed
qed

text \<open>
  Claim C4, as the code has it. An element with at least one ancestor that carries a
  hidden marker the classifier looks for (the \<open>hidden\<close> attribute, an inline
  \<open>display: none\<close> or \<open>visibility: hidden\<close>, or \<open>aria-hidden="true"\<close>) is not
  focusable, whatever the element itself carries.
\<close>

theorem isFocusable_hidden_ancestor:
  "\<exists>p \<in> set (ancestors el). hiddenMarker p \<Longrightarrow> \<not> isFocusable (Some el)"
  by (simp add: isFocusable_def parentLoop_ancestors)

text \<open>
  The button of the test: its only ancestor is the hidden \<open>div\<close>, it has no marker
  of its own, and it is not focusable.
\<close>

theorem isFocusable_hidden_ancestor_witness:
  "(\<exists>p \<in> set (ancestors buttonInHiddenDiv). hiddenMarker p)
   \<and> \<not> hiddenMarker buttonInHiddenDiv
   \<and> \<not> isFocusable (Some buttonInHiddenDiv)"
proof -
  have anc: "ancestors buttonInHiddenDiv = [hiddenDiv]"
    by (simp add: buttonInHiddenDiv_def htmlElement_def hiddenDiv_def ancestors_Some ancestors_None)
  have h: "\<exists>p \<in> set (ancestors buttonInHiddenDiv). hiddenMarker p"
    by (simp add: anc hiddenMarker_def hiddenDiv_def)
  have own: "\<not> hiddenMarker buttonInHiddenDiv"
    by (simp add: hiddenMarker_def buttonInHiddenDiv_def htmlElement_def hasAttribute_def
        getAttribute_def)
  from isFocusable_hidden_ancestor [OF h] h own show ?thesis
    by simp
qed

text \<open>
  Claim C4 as stated covers every ancestor that is not displayed or not visible. The
  classifier reads the inline style only and never the computed one: the button under
  the \<open>div\<close> that a style sheet hides has a hidden ancestor and is focusable.
\<close>

theorem isFocusable_hidden_ancestor_counterexample:
  "(\<exists>p \<in> set (ancestors buttonInClassHiddenDiv). hiddenElement p)
   \<and> isFocusable (Some buttonInClassHiddenDiv)"
proof -
  have anc: "ancestors buttonInClassHiddenDiv = [classHiddenDiv]"
    by (simp add: buttonInClassHiddenDiv_def htmlElement_def classHiddenDiv_def ancestors_Some
        ancestors_None)
  have hidden: "hiddenElement classHiddenDiv"
    by (simp add: hiddenElement_def classHiddenDiv_def)
  have focusable: "isFocusable (Some buttonInClassHiddenDiv)"
    by code_simp
  from anc hidden focusable show ?thesis
    by simp
qed

lemma isFocusable_tabindex_minus_one:
  "getAttribute el ''tabindex'' = Some ''-1'' \<Longrightarrow> \<not> isFocusable (Some el)"
  by (simp add: isFocusable_def)

text \<open>
  Claim C7, as the code has it. For every element carrying \<open>tabindex="-1"\<close>,
  \<open>isTabbable\<close> returns false, and \<open>isFocusable\<close> returns false as well: the
  classifier has a guard of its own that rejects this attribute value, so the two
  predicates agree on these elements.
\<close>

theorem tabindex_minus_one_neither:
  "getAttribute el ''tabindex'' = Some ''-1'' \<Longrightarrow>
     \<not> isTabbable (Some el) \<and> \<not> isFocusable (Some el)"
  by (simp add: isTabbable_def isFocusable_tabindex_minus_one)

theorem tabindex_minus_one_neither_witness:
  "getAttribute buttonMinusOne ''tabindex'' = Some ''-1''
   \<and> \<not> isTabbable (Some buttonMinusOne) \<and> \<not> isFocusable (Some buttonMinusOne)"
proof -
  have h: "getAttribute buttonMinusOne ''tabindex'' = Some ''-1''"
    by (simp add: buttonMinusOne_def htmlElement_def getAttribute_def)
  from tabindex_minus_one_neither [OF h] h show ?thesis
    by simp
qed

text \<open>
  Claim C7 as stated asks for some element with \<open>tabindex="-1"\<close> on which
  \<open>isFocusable\<close> is true. There is none.
\<close>

theorem tabindex_minus_one_focusable_counterexample:
  "\<not> ((\<forall>el. getAttribute el ''tabindex'' = Some ''-1'' \<longrightarrow> \<not> isTabbable (Some el))
      \<and> (\<exists>el. getAttribute el ''tabindex'' = Some ''-1'' \<and> isFocusable (Some el)))"
  using isFocusable_tabindex_minus_one by blast

subsection \<open>Enumerator\<close>

lemma mset_insertSorted: "mset (insertSorted cmp x xs) = add_mset x (mset xs)"
  by (induction xs) auto

lemma mset_Array_sort: "mset (Array_sort cmp xs) = mset xs"
  by (induction xs) (auto simp: Array_sort_def mset_insertSorted)

lemma set_Array_sort: "set (Array_sort cmp xs) = set xs"
  using mset_Array_sort [of cmp xs] by (metis set_mset_mset)

lemma getFocusableElements_None: "getFocusableElements Number None options doc = (Inr [], [])"
  by (simp add: getFocusableElements.simps(1))

lemma getFocusableElements_no_document:
  "getFocusableElements Number container options None = (Inr [], [])"
  by (simp add: getFocusableElements.simps(1) split: option.splits)

lemma getFocusableElements_candidates:
  "getFocusableElements Number (Some c) options (Some d) =
     (case filteredCandidates Number c options (Some d) of
        (Inl error, written) \<Rightarrow>
          (Inr [], written @ [ConsoleError ''Error in getFocusableElements:'' error])
      | (Inr candidates, written) \<Rightarrow> (Inr (Array_sort (compareFn Number) candidates), written))"
  by (simp add: getFocusableElements.simps(1) filteredCandidates_def
      split: option.splits sum.splits prod.splits)

lemma getFocusableElements_returns:
  "\<exists>xs written. getFocusableElements Number container options doc = (Inr xs, written)"
proof (cases container)
  case None
  then show ?thesis by (simp add: getFocusableElements_None)
next
  case (Some c)
  show ?thesis
  proof (cases doc)
    case None
    then show ?thesis by (simp add: getFocusableElements_no_document)
  next
    case d: (Some d)
    obtain r written where fc: "filteredCandidates Number c options (Some d) = (r, written)"
      by (cases "filteredCandidates Number c options (Some d)")
    show ?thesis
      by (cases r) (simp_all add: Some d getFocusableElements_candidates fc)
  qed
qed














lemma filteredCandidates_classified:
  assumes "filteredCandidates Number c options doc = (Inr candidates, written)"
    and "el \<in> set candidates"
  shows "if (case onlyTabbable options of None \<Rightarrow> False | Some b \<Rightarrow> b)
         then isTabbable (Some el) else isFocusable (Some el)"
  using assms
  by (auto simp: filteredCandidates_def split: sum.splits prod.splits if_splits)

text \<open>
  Claim C3. For every container and all options the enumerator returns a list, and
  every element of it satisfies \<open>isTabbable\<close> when \<open>onlyTabbable\<close> is true and
  \<open>isFocusable\<close> otherwise. The elements pushed from open shadow roots go through
  the same filter as the container's own.
\<close>

theorem getFocusableElements_classified:
  "\<exists>xs written.
     getFocusableElements Number container options doc = (Inr xs, written)
     \<and> (\<forall>el \<in> set xs.
           if (case onlyTabbable options of None \<Rightarrow> False | Some b \<Rightarrow> b)
           then isTabbable (Some el) else isFocusable (Some el))"
proof (cases container)
  case None
  then show ?thesis by (simp add: getFocusableElements_None)
next
  case (Some c)
  show ?thesis
  proof (cases doc)
    case None
    then show ?thesis by (simp add: getFocusableElements_no_document)
  next
    case d: (Some d)
    obtain r written where fc: "filteredCandidates Number c options (Some d) = (r, written)"
      by (cases "filteredCandidates Number c options (Some d)")
    show ?thesis
    proof (cases r)
      case (Inl error)
      then show ?thesis
        by (simp add: Some d getFocusableElements_candidates fc)
    next
      case (Inr candidates)
      then show ?thesis
        using filteredCandidates_classified [of Number c options "Some d" candidates written] fc
        by (simp add: Some d getFocusableElements_candidates set_Array_sort)
    qed
  qed
qed

text \<open>
  The shadow DOM fixture: the result holds the container's button and the two elements
  of the shadow root, and each is focusable.
\<close>

theorem getFocusableElements_classified_witness:
  "getFocusableElements digitsNumber (Some shadowContainer) shadowOptions (Some someDocument)
     = (Inr [button1, shadowButton, shadowInput], [])
   \<and> isFocusable (Some button1) \<and> isFocusable (Some shadowButton)
   \<and> isFocusable (Some shadowInput)"
proof -
  have run: "getFocusableElements digitsNumber (Some shadowContainer) shadowOptions
               (Some someDocument) = (Inr [button1, shadowButton, shadowInput], [])"
    by code_simp
  have o: "onlyTabbable shadowOptions = None"
    by (simp add: shadowOptions_def)
  from getFocusableElements_classified
         [of digitsNumber "Some shadowContainer" shadowOptions "Some someDocument"]
  show ?thesis
    by (simp add: run o)
qed

text \<open>
  Claim C9, as the code has it. With an absent container the call returns the empty
  list, whatever is passed for the options. With options that destructure (nothing
  passed, or an object whose two properties can be read) the call always returns a list
  and never an exception: an absent \<open>document\<close> gives the empty list and writes
  nothing; when the selector query throws, when reading a \<open>shadowRoot\<close> throws, and in
  general when the traversal ends in an exception, the function writes the error to the
  console and returns the empty list.
\<close>

theorem getFocusableElements_never_throws:
  "callGetFocusableElements Number None optionsValue doc = (Inr [], [])
   \<and> (destructureOptions optionsValue = Inr options \<longrightarrow>
        (\<exists>xs written.
            callGetFocusableElements Number container optionsValue doc = (Inr xs, written))
        \<and> callGetFocusableElements Number container optionsValue None = (Inr [], [])
        \<and> (\<forall>error. querySelectorAll c POTENTIALLY_FOCUSABLE_SELECTORS = Inl error \<longrightarrow>
              callGetFocusableElements Number (Some c) optionsValue (Some d)
                = (Inr [], [ConsoleError ''Error in getFocusableElements:'' error]))
        \<and> (\<forall>error potentially allElements.
              querySelectorAll c POTENTIALLY_FOCUSABLE_SELECTORS = Inr potentially
              \<and> includeShadowDOM options \<noteq> Some False
              \<and> querySelectorAll c [Universal] = Inr allElements
              \<and> filterOpenShadowRoots allElements = Inl error \<longrightarrow>
              callGetFocusableElements Number (Some c) optionsValue (Some d)
                = (Inr [], [ConsoleError ''Error in getFocusableElements:'' error]))
        \<and> (\<forall>error written.
              filteredCandidates Number c options (Some d) = (Inl error, written) \<longrightarrow>
              callGetFocusableElements Number (Some c) optionsValue (Some d)
                = (Inr [], written @ [ConsoleError ''Error in getFocusableElements:'' error])))"
proof (intro conjI allI impI)
  show "callGetFocusableElements Number None optionsValue doc = (Inr [], [])"
    by (simp add: callGetFocusableElements_def)
next
  assume o: "destructureOptions optionsValue = Inr options"
  have call: "callGetFocusableElements Number container' optionsValue doc'
                = getFocusableElements Number container' options doc'"
    for container' doc'
    by (cases container') (simp_all add: callGetFocusableElements_def o getFocusableElements_None)
  show "\<exists>xs written.
          callGetFocusableElements Number container optionsValue doc = (Inr xs, written)"
    by (simp add: call getFocusableElements_returns)
  show "callGetFocusableElements Number container optionsValue None = (Inr [], [])"
    by (simp add: call getFocusableElements_no_document)
  show "callGetFocusableElements Number (Some c) optionsValue (Some d)
               = (Inr [], [ConsoleError ''Error in getFocusableElements:'' error])"
    if "querySelectorAll c POTENTIALLY_FOCUSABLE_SELECTORS = Inl error" for error
    using that by (simp add: call getFocusableElements_candidates filteredCandidates_def)
  show "callGetFocusableElements Number (Some c) optionsValue (Some d)
               = (Inr [], [ConsoleError ''Error in getFocusableElements:'' error])"
    if "querySelectorAll c POTENTIALLY_FOCUSABLE_SELECTORS = Inr potentially
         \<and> includeShadowDOM options \<noteq> Some False
         \<and> querySelectorAll c [Universal] = Inr allElements
         \<and> filterOpenShadowRoots allElements = Inl error"
    for error potentially allElements
    using that
    by (auto simp: call getFocusableElements_candidates filteredCandidates_def
        split: option.splits)
  show "callGetFocusableElements Number (Some c) optionsValue (Some d)
               = (Inr [], written @ [ConsoleError ''Error in getFocusableElements:'' error])"
    if "filteredCandidates Number c options (Some d) = (Inl error, written)" for error written
    using that by (simp add: call getFocusableElements_candidates)
qed

text \<open>
  The partial object of the test suite, whose \<open>querySelectorAll\<close> throws, and a
  container with an element whose \<open>shadowRoot\<close> throws, each with the options
  \<open>{ includeShadowDOM: true }\<close>.
\<close>

theorem getFocusableElements_never_throws_witness:
  "destructureOptions shadowOptionsValue = Inr shadowOptions
   \<and> querySelectorAll PartialObject POTENTIALLY_FOCUSABLE_SELECTORS = Inl Error
   \<and> callGetFocusableElements digitsNumber (Some PartialObject) shadowOptionsValue
        (Some someDocument)
       = (Inr [], [ConsoleError ''Error in getFocusableElements:'' Error])
   \<and> querySelectorAll hostileContainer POTENTIALLY_FOCUSABLE_SELECTORS = Inr [button1]
   \<and> filterOpenShadowRoots [button1, probeThrows] = Inl TypeError
   \<and> callGetFocusableElements digitsNumber (Some hostileContainer) shadowOptionsValue
        (Some someDocument)
       = (Inr [], [ConsoleError ''Error in getFocusableElements:'' TypeError])"
proof -
  have d: "destructureOptions shadowOptionsValue = Inr shadowOptions"
    by (simp add: destructureOptions_def shadowOptionsValue_def shadowOptions_def)
  have q1: "querySelectorAll PartialObject POTENTIALLY_FOCUSABLE_SELECTORS = Inl Error"
    by (simp add: querySelectorAll_def)
  have q2: "querySelectorAll hostileContainer POTENTIALLY_FOCUSABLE_SELECTORS = Inr [button1]"
    by code_simp
  have q3: "querySelectorAll hostileContainer [Universal] = Inr [button1, probeThrows]"
    by code_simp
  have q4: "filterOpenShadowRoots [button1, probeThrows] = Inl TypeError"
    by code_simp
  have o: "includeShadowDOM shadowOptions \<noteq> Some False"
    by (simp add: shadowOptions_def)
  note t1 = getFocusableElements_never_throws
      [where Number = digitsNumber and optionsValue = shadowOptionsValue
        and options = shadowOptions and c = PartialObject and d = someDocument]
  note t2 = getFocusableElements_never_throws
      [where Number = digitsNumber and optionsValue = shadowOptionsValue
        and options = shadowOptions and c = hostileContainer and d = someDocument]
  from t1 d q1 have r1: "callGetFocusableElements digitsNumber (Some PartialObject)
       shadowOptionsValue (Some someDocument)
       = (Inr [], [ConsoleError ''Error in getFocusableElements:'' Error])"
    by blast
  from t2 d q2 q3 q4 o have r2: "callGetFocusableElements digitsNumber (Some hostileContainer)
       shadowOptionsValue (Some someDocument)
       = (Inr [], [ConsoleError ''Error in getFocusableElements:'' TypeError])"
    by blast
  from d q1 r1 q2 q4 r2 show ?thesis
    by simp
qed

text \<open>
  Claim C9 as stated holds for every input. The destructuring of the options stands
  before the \<open>try\<close> block: with a container, \<open>null\<close> for the options leaves the
  function with a \<open>TypeError\<close>, and an options object whose getter throws leaves it with
  the getter's exception. Nothing is written to the console.
\<close>

theorem getFocusableElements_never_throws_counterexample:
  "callGetFocusableElements digitsNumber (Some shadowContainer) Null (Some someDocument)
     = (Inl TypeError, [])
   \<and> callGetFocusableElements digitsNumber (Some shadowContainer) getterThrows
        (Some someDocument)
     = (Inl Error, [])"
  by (simp add: callGetFocusableElements_def destructureOptions_def getterThrows_def)



subsection \<open>Focus-state keeper\<close>

text \<open>
  Claim C1 says that the default slot is empty after every call of \<open>returnFocus\<close>.
  The code returns the fallback from inside the \<open>try\<close> block and from inside the
  \<open>catch\<close> block, before the statement that clears the slot. With a saved element
  whose \<open>focus\<close> does nothing, and with one whose \<open>focus\<close> throws, the call
  returns \<open>document.body\<close> and the slot still holds the saved element.
\<close>

theorem returnFocus_fallback_keeps_slot:
  "fst (returnFocus noOptions (savedState removedButton)) = Inr (Some pageBody)
   \<and> savedFocusElement (snd (returnFocus noOptions (savedState removedButton)))
       = Some removedButton
   \<and> fst (returnFocus noOptions (savedState throwingButton)) = Inr (Some pageBody)
   \<and> savedFocusElement (snd (returnFocus noOptions (savedState throwingButton)))
       = Some throwingButton"
  by (simp add: returnFocus_def noOptions_def savedState_def initialState_def invokeFocus_def
      removedButton_def throwingButton_def pageBody_def htmlElement_def currentActiveElement_def
      Let_def)

lemma invokeFocus_calls:
  "focusCalls (snd (invokeFocus el ps s)) = focusCalls s @ [(el, ps)]"
  by (cases "focus el") (simp_all add: invokeFocus_def Let_def)

lemma invokeFocus_no_throw:
  "focus el \<noteq> Throws \<Longrightarrow> fst (invokeFocus el ps s) = Inr ()"
  by (cases "focus el") (simp_all add: invokeFocus_def Let_def)

lemma invokeFocus_slot:
  "savedFocusElement (snd (invokeFocus el ps s)) = savedFocusElement s"
  by (cases "focus el") (simp_all add: invokeFocus_def Let_def)

lemma invokeFocus_still_active:
  "focus el \<noteq> Throws \<Longrightarrow> currentActiveElement s = Some el \<Longrightarrow>
     currentActiveElement (snd (invokeFocus el ps s)) = Some el"
  by (cases "focus el")
    (auto simp: invokeFocus_def Let_def currentActiveElement_def split: option.splits)

text \<open>
  Claim C2. \<open>saveFocus()\<close> while \<open>X\<close> is the active element, then
  \<open>returnFocus\<close> with nothing changed in between and \<open>X.focus\<close> not throwing:
  the call invokes \<open>X.focus\<close>, \<open>X\<close> is the active element afterwards, the call
  returns \<open>X\<close> and the slot is empty. A second \<open>returnFocus\<close> right after it
  invokes \<open>focus\<close> on its fallback element (\<open>document.body\<close> unless the options
  give one) and returns it, where that call of \<open>focus\<close> does not throw.
\<close>

theorem saveFocus_returnFocus_round_trip:
  assumes doc: "document s = Some d"
    and active: "activeElement d = Some X"
    and accepts: "focus X \<noteq> Throws"
    and fallback: "(case fallbackElement options' of None \<Rightarrow> body d | Some given \<Rightarrow> given) = Some fb"
    and fallback_ok: "focus fb \<noteq> Throws"
    and saved: "saveFocus s = (r0, s1)"
    and first: "returnFocus options s1 = (r1, s2)"
    and second: "returnFocus options' s2 = (r2, s3)"
  shows "r0 = Some X
     \<and> savedFocusElement s1 = Some X
     \<and> r1 = Inr (Some X)
     \<and> currentActiveElement s2 = Some X
     \<and> focusCalls s2 = focusCalls s
          @ [(X, Some (case preventScroll options of None \<Rightarrow> True | Some b \<Rightarrow> b))]
     \<and> savedFocusElement s2 = None
     \<and> r2 = Inr (Some fb)
     \<and> focusCalls s3 = focusCalls s2
          @ [(fb, Some (case preventScroll options' of None \<Rightarrow> True | Some b \<Rightarrow> b))]
     \<and> savedFocusElement s3 = None"
proof -
  let ?ps = "Some (case preventScroll options of None \<Rightarrow> True | Some b \<Rightarrow> b)"
  let ?ps' = "Some (case preventScroll options' of None \<Rightarrow> True | Some b \<Rightarrow> b)"
  have s1: "s1 = s\<lparr>savedFocusElement := Some X\<rparr>" and r0: "r0 = Some X"
    using saved doc active by (auto simp: saveFocus_def)
  have doc1: "document s1 = Some d" and slot1: "savedFocusElement s1 = Some X"
    using doc by (simp_all add: s1)
  have act1: "currentActiveElement s1 = Some X"
    by (simp add: currentActiveElement_def doc1 active)
  obtain u t where inv: "invokeFocus X ?ps s1 = (u, t)"
    by (cases "invokeFocus X ?ps s1")
  have u: "u = Inr ()"
    using invokeFocus_no_throw [OF accepts, of ?ps s1] inv by simp
  have t_act: "currentActiveElement t = Some X"
    using invokeFocus_still_active [OF accepts act1, of ?ps] inv by simp
  have t_calls: "focusCalls t = focusCalls s @ [(X, ?ps)]"
    using invokeFocus_calls [of X ?ps s1] inv by (simp add: s1)
  have run1: "returnFocus options s1 = (Inr (Some X), t\<lparr>savedFocusElement := None\<rparr>)"
    by (simp add: returnFocus_def doc1 slot1 Let_def inv u t_act)
  then have r1: "r1 = Inr (Some X)" and s2: "s2 = t\<lparr>savedFocusElement := None\<rparr>"
    using first by simp_all
  have doc_t: "document t = Some (d\<lparr>activeElement := Some X\<rparr>) \<or> document t = Some d"
    using inv doc1 by (cases "focus X") (auto simp: invokeFocus_def Let_def)
  then obtain d2 where doc2: "document s2 = Some d2" and body2: "body d2 = body d"
    by (auto simp: s2)
  have slot2: "savedFocusElement s2 = None"
    by (simp add: s2)
  have fb2: "(case fallbackElement options' of None \<Rightarrow> body d2 | Some given \<Rightarrow> given) = Some fb"
    using fallback by (simp add: body2 split: option.splits)
  obtain u' t' where inv': "invokeFocus fb ?ps' s2 = (u', t')"
    by (cases "invokeFocus fb ?ps' s2")
  have u': "u' = Inr ()"
    using invokeFocus_no_throw [OF fallback_ok, of ?ps' s2] inv' by simp
  have run2: "returnFocus options' s2 = (Inr (Some fb), t')"
    by (simp add: returnFocus_def doc2 slot2 Let_def fb2 inv' u')
  then have r2: "r2 = Inr (Some fb)" and s3: "s3 = t'"
    using second by simp_all
  have calls3: "focusCalls s3 = focusCalls s2 @ [(fb, ?ps')]"
    using invokeFocus_calls [of fb ?ps' s2] inv' by (simp add: s3)
  have slot3: "savedFocusElement s3 = None"
    using invokeFocus_slot [of fb ?ps' s2] inv' slot2 by (simp add: s3)
  have act2: "currentActiveElement s2 = Some X"
    using t_act by (simp add: s2 currentActiveElement_def)
  have calls2: "focusCalls s2 = focusCalls s @ [(X, ?ps)]"
    using t_calls by (simp add: s2)
  from r0 slot1 r1 act2 calls2 slot2 r2 calls3 slot3 show ?thesis
    by simp
qed

theorem saveFocus_returnFocus_round_trip_witness:
  "fst (saveFocus (initialState (Some sortButton1))) = Some sortButton1
   \<and> fst (returnFocus noOptions (snd (saveFocus (initialState (Some sortButton1)))))
       = Inr (Some sortButton1)
   \<and> savedFocusElement
         (snd (returnFocus noOptions (snd (saveFocus (initialState (Some sortButton1))))))
       = None
   \<and> fst (returnFocus noOptions
         (snd (returnFocus noOptions (snd (saveFocus (initialState (Some sortButton1)))))))
       = Inr (Some pageBody)"
proof -
  let ?s = "initialState (Some sortButton1)"
  let ?d = "\<lparr>activeElement = Some sortButton1, body = Some pageBody\<rparr>"
  let ?s1 = "snd (saveFocus ?s)"
  let ?s2 = "snd (returnFocus noOptions ?s1)"
  have doc: "document ?s = Some ?d"
    by (simp add: initialState_def)
  have active: "activeElement ?d = Some sortButton1"
    by simp
  have accepts: "focus sortButton1 \<noteq> Throws"
    by (simp add: sortButton1_def htmlElement_def)
  have fallback:
    "(case fallbackElement noOptions of None \<Rightarrow> body ?d | Some given \<Rightarrow> given) = Some pageBody"
    by (simp add: noOptions_def)
  have fallback_ok: "focus pageBody \<noteq> Throws"
    by (simp add: pageBody_def htmlElement_def)
  have saved: "saveFocus ?s = (fst (saveFocus ?s), ?s1)"
    by simp
  have first: "returnFocus noOptions ?s1 = (fst (returnFocus noOptions ?s1), ?s2)"
    by simp
  have second: "returnFocus noOptions ?s2
                  = (fst (returnFocus noOptions ?s2), snd (returnFocus noOptions ?s2))"
    by simp
  from saveFocus_returnFocus_round_trip
         [OF doc active accepts fallback fallback_ok saved first second]
  show ?thesis
    by simp
qed

text \<open>
  Claim C8. A manager's \<open>saveFocus\<close> and \<open>returnFocus\<close> return what the
  module-level functions return on the state whose default slot holds what the manager's
  variable holds, leave the same document and the same record of \<open>focus\<close> calls,
  and leave in the manager's variable what the module-level function leaves in the
  default slot. The console entries are the same up to the text of the first message.
  The manager's functions touch neither the default slot nor another manager's variable.
\<close>

theorem createFocusManager_same_semantics:
  "fst (manager_saveFocus m s) = fst (saveFocus (s\<lparr>savedFocusElement := savedElement s m\<rparr>))
   \<and> savedElement (snd (manager_saveFocus m s)) m
       = savedFocusElement (snd (saveFocus (s\<lparr>savedFocusElement := savedElement s m\<rparr>)))
   \<and> document (snd (manager_saveFocus m s)) = document s
   \<and> focusCalls (snd (manager_saveFocus m s)) = focusCalls s
   \<and> console (snd (manager_saveFocus m s)) = console s
   \<and> savedFocusElement (snd (manager_saveFocus m s)) = savedFocusElement s
   \<and> savedElement (snd (manager_saveFocus m s))
       = (savedElement s)(m := savedElement (snd (manager_saveFocus m s)) m)
   \<and> fst (manager_returnFocus m options s)
       = fst (returnFocus options (s\<lparr>savedFocusElement := savedElement s m\<rparr>))
   \<and> savedElement (snd (manager_returnFocus m options s)) m
       = savedFocusElement
           (snd (returnFocus options (s\<lparr>savedFocusElement := savedElement s m\<rparr>)))
   \<and> document (snd (manager_returnFocus m options s))
       = document (snd (returnFocus options (s\<lparr>savedFocusElement := savedElement s m\<rparr>)))
   \<and> focusCalls (snd (manager_returnFocus m options s))
       = focusCalls (snd (returnFocus options (s\<lparr>savedFocusElement := savedElement s m\<rparr>)))
   \<and> console (snd (manager_returnFocus m options s))
       = console s @ map managerMessage
           (drop (length (console s))
             (console (snd (returnFocus options
                (s\<lparr>savedFocusElement := savedElement s m\<rparr>)))))
   \<and> savedFocusElement (snd (manager_returnFocus m options s)) = savedFocusElement s
   \<and> savedElement (snd (manager_returnFocus m options s))
       = (savedElement s)(m := savedElement (snd (manager_returnFocus m options s)) m)"
proof -
  have save: "fst (manager_saveFocus m s) = fst (saveFocus (s\<lparr>savedFocusElement := savedElement s m\<rparr>))
   \<and> savedElement (snd (manager_saveFocus m s)) m
       = savedFocusElement (snd (saveFocus (s\<lparr>savedFocusElement := savedElement s m\<rparr>)))
   \<and> document (snd (manager_saveFocus m s)) = document s
   \<and> focusCalls (snd (manager_saveFocus m s)) = focusCalls s
   \<and> console (snd (manager_saveFocus m s)) = console s
   \<and> savedFocusElement (snd (manager_saveFocus m s)) = savedFocusElement s
   \<and> savedElement (snd (manager_saveFocus m s))
       = (savedElement s)(m := savedElement (snd (manager_saveFocus m s)) m)"
    by (cases "document s") (simp_all add: manager_saveFocus_def saveFocus_def)
  have restore: "fst (manager_returnFocus m options s)
       = fst (returnFocus options (s\<lparr>savedFocusElement := savedElement s m\<rparr>))
   \<and> savedElement (snd (manager_returnFocus m options s)) m
       = savedFocusElement
           (snd (returnFocus options (s\<lparr>savedFocusElement := savedElement s m\<rparr>)))
   \<and> document (snd (manager_returnFocus m options s))
       = document (snd (returnFocus options (s\<lparr>savedFocusElement := savedElement s m\<rparr>)))
   \<and> focusCalls (snd (manager_returnFocus m options s))
       = focusCalls (snd (returnFocus options (s\<lparr>savedFocusElement := savedElement s m\<rparr>)))
   \<and> console (snd (manager_returnFocus m options s))
       = console s @ map managerMessage
           (drop (length (console s))
             (console (snd (returnFocus options
                (s\<lparr>savedFocusElement := savedElement s m\<rparr>)))))
   \<and> savedFocusElement (snd (manager_returnFocus m options s)) = savedFocusElement s
   \<and> savedElement (snd (manager_returnFocus m options s))
       = (savedElement s)(m := savedElement (snd (manager_returnFocus m options s)) m)"
  proof (cases "document s")
    case None
    then show ?thesis
      by (simp add: manager_returnFocus_def returnFocus_def)
  next
    case (Some d)
    let ?fb = "case fallbackElement options of None \<Rightarrow> body d | Some given \<Rightarrow> given"
    show ?thesis
    proof (cases "savedElement s m")
      case None
      show ?thesis
      proof (cases ?fb)
        case fbNone: None
        then show ?thesis
          by (simp add: manager_returnFocus_def returnFocus_def Some None Let_def fun_upd_idem)
      next
        case (Some fb)
        then show ?thesis
          by (cases "focus fb")
            (simp_all add: manager_returnFocus_def returnFocus_def \<open>document s = Some d\<close> None
              Let_def invokeFocus_def fun_upd_idem)
      qed
    next
      case saved: (Some saved)
      show ?thesis
      proof (cases ?fb)
        case None
        then show ?thesis
          by (cases "focus saved")
            (simp_all add: manager_returnFocus_def returnFocus_def Some saved Let_def
              invokeFocus_def currentActiveElement_def managerMessage_def fun_upd_idem)
      next
        case fb: (Some fb)
        then show ?thesis
          by (cases "focus saved"; cases "focus fb")
            (simp_all add: manager_returnFocus_def returnFocus_def Some saved Let_def
              invokeFocus_def currentActiveElement_def managerMessage_def fun_upd_idem)
      qed
    qed
  qed
  from save restore show ?thesis
    by blast
qed

theorem createFocusManager_same_semantics_witness:
  "fst (createFocusManager (initialState (Some throwingButton))) = 0
   \<and> savedElement (managerState throwingButton) 0 = Some throwingButton
   \<and> fst (returnFocus noOptions
          ((managerState throwingButton)\<lparr>savedFocusElement := Some throwingButton\<rparr>))
       = Inr (Some pageBody)
   \<and> fst (manager_returnFocus 0 noOptions (managerState throwingButton)) = Inr (Some pageBody)
   \<and> console (snd (manager_returnFocus 0 noOptions (managerState throwingButton)))
       = [ConsoleError ''Error returning focus in focus manager:'' Error]
   \<and> savedElement (snd (manager_returnFocus 0 noOptions (managerState throwingButton))) 0
       = Some throwingButton"
proof -
  have m: "fst (createFocusManager (initialState (Some throwingButton))) = 0"
    by (simp add: createFocusManager_def initialState_def)
  have slot: "savedElement (managerState throwingButton) 0 = Some throwingButton"
    by (simp add: managerState_def manager_saveFocus_def createFocusManager_def initialState_def)
  have empty: "console (managerState throwingButton) = []"
    by (simp add: managerState_def manager_saveFocus_def createFocusManager_def initialState_def)
  have dflt: "returnFocus noOptions
          ((managerState throwingButton)\<lparr>savedFocusElement := Some throwingButton\<rparr>)
       = (Inr (Some pageBody),
          (managerState throwingButton)
            \<lparr>savedFocusElement := Some throwingButton,
             document := Some \<lparr>activeElement = Some pageBody, body = Some pageBody\<rparr>,
             console := [ConsoleError ''Error returning focus:'' Error],
             focusCalls := [(throwingButton, Some True), (pageBody, Some True)]\<rparr>)"
    by (simp add: returnFocus_def noOptions_def managerState_def manager_saveFocus_def
        createFocusManager_def initialState_def invokeFocus_def throwingButton_def pageBody_def
        htmlElement_def Let_def)
  from createFocusManager_same_semantics
         [where m = 0 and options = noOptions and s = "managerState throwingButton"]
  show ?thesis
    by (simp add: m slot empty dflt managerMessage_def)
qed

subsection \<open>Trap controller\<close>

lemma invokeFocus_Accepts:
  "focus el = Accepts \<Longrightarrow> document s = Some d \<Longrightarrow>
     currentActiveElement (snd (invokeFocus el ps s)) = Some el"
  by (simp add: invokeFocus_def Let_def currentActiveElement_def)

lemma invokeFocus_document_unchanged:
  "focus el \<noteq> Accepts \<Longrightarrow> document (snd (invokeFocus el ps s)) = document s"
  by (cases "focus el") (simp_all add: invokeFocus_def Let_def)

text \<open>
  Claim C5. The trap is active, its container is mounted, the key is \<open>Tab\<close>, and
  \<open>tabbableElements\<close> is what the enumerator returns for the container. With no
  tabbable element the handler prevents the default and calls \<open>focus\<close> on the
  container. With Shift held and the first tabbable element active it prevents the
  default and calls \<open>focus\<close> on the last; without Shift and the last active, on the
  first. In every other case it returns without calling \<open>preventDefault\<close> or
  \<open>focus\<close>, and the document is as before.
\<close>

theorem handleKeyDown_Tab:
  assumes trap: "active trap" "containerRef trap = Some (current, currentDescendants)"
    and tab: "key event = ''Tab''"
    and doc: "document s = Some d"
    and enum: "getFocusableElements Number (Some (Container currentDescendants))
                 \<lparr>onlyTabbable = Some True, includeShadowDOM = None\<rparr> (Some d)
               = (Inr tabbableElements, written)"
    and run: "handleKeyDown Number trap event s = (completion, event', s')"
  shows
    "(tabbableElements = [] \<longrightarrow>
        defaultPrevented event' \<and> focusCalls s' = focusCalls s @ [(current, None)]
        \<and> (focus current = Accepts \<longrightarrow> currentActiveElement s' = Some current))
     \<and> (tabbableElements \<noteq> [] \<and> shiftKey event
          \<and> activeElement d = Some (hd tabbableElements) \<longrightarrow>
        defaultPrevented event'
        \<and> focusCalls s' = focusCalls s @ [(last tabbableElements, None)]
        \<and> (focus (last tabbableElements) = Accepts \<longrightarrow>
               currentActiveElement s' = Some (last tabbableElements)))
     \<and> (tabbableElements \<noteq> [] \<and> \<not> shiftKey event
          \<and> activeElement d = Some (last tabbableElements) \<longrightarrow>
        defaultPrevented event'
        \<and> focusCalls s' = focusCalls s @ [(hd tabbableElements, None)]
        \<and> (focus (hd tabbableElements) = Accepts \<longrightarrow>
               currentActiveElement s' = Some (hd tabbableElements)))
     \<and> (tabbableElements \<noteq> []
          \<and> (shiftKey event \<longrightarrow> activeElement d \<noteq> Some (hd tabbableElements))
          \<and> (\<not> shiftKey event \<longrightarrow> activeElement d \<noteq> Some (last tabbableElements)) \<longrightarrow>
        completion = Inr () \<and> event' = event \<and> focusCalls s' = focusCalls s
        \<and> document s' = document s)"
proof -
  let ?s1 = "s\<lparr>console := console s @ written\<rparr>"
  have doc1: "document ?s1 = Some d"
    using doc by simp
  have step: "handleKeyDown Number trap event s =
      (if tabbableElements = []
       then (case invokeFocus current None ?s1 of
               (c, s2) \<Rightarrow> (c, event\<lparr>defaultPrevented := True\<rparr>, s2))
       else if shiftKey event
       then (if activeElement d = Some (hd tabbableElements)
             then (case invokeFocus (last tabbableElements) None ?s1 of
                     (c, s2) \<Rightarrow> (c, event\<lparr>defaultPrevented := True\<rparr>, s2))
             else (Inr (), event, ?s1))
       else (if activeElement d = Some (last tabbableElements)
             then (case invokeFocus (hd tabbableElements) None ?s1 of
                     (c, s2) \<Rightarrow> (c, event\<lparr>defaultPrevented := True\<rparr>, s2))
             else (Inr (), event, ?s1)))"
    using trap tab doc enum by (simp add: handleKeyDown_def Let_def)
  have focused: "defaultPrevented event' \<and> focusCalls s' = focusCalls s @ [(x, None)]
        \<and> (focus x = Accepts \<longrightarrow> currentActiveElement s' = Some x)"
    if "(completion, event', s') =
          (case invokeFocus x None ?s1 of (c, s2) \<Rightarrow> (c, event\<lparr>defaultPrevented := True\<rparr>, s2))"
    for x
  proof -
    from that have e: "event' = event\<lparr>defaultPrevented := True\<rparr>"
      and s': "s' = snd (invokeFocus x None ?s1)"
      by (simp_all split: prod.splits)
    show ?thesis
      using invokeFocus_calls [of x None ?s1] invokeFocus_Accepts [of x ?s1 d None] doc1
      by (simp add: e s')
  qed
  have untouched: "completion = Inr () \<and> event' = event \<and> focusCalls s' = focusCalls s
        \<and> document s' = document s"
    if "(completion, event', s') = (Inr (), event, ?s1)"
    using that by simp
  note result = step [unfolded run]
  show ?thesis
  proof (cases "tabbableElements = []")
    case True
    with result have "(completion, event', s') =
        (case invokeFocus current None ?s1 of
           (c, s2) \<Rightarrow> (c, event\<lparr>defaultPrevented := True\<rparr>, s2))"
      by (simp only: if_P if_not_P simp_thms)
    from focused [OF this] True show ?thesis
      by blast
  next
    case nonempty: False
    show ?thesis
    proof (cases "shiftKey event")
      case shift: True
      show ?thesis
      proof (cases "activeElement d = Some (hd tabbableElements)")
        case True
        with result nonempty shift have "(completion, event', s') =
            (case invokeFocus (last tabbableElements) None ?s1 of
               (c, s2) \<Rightarrow> (c, event\<lparr>defaultPrevented := True\<rparr>, s2))"
          by (simp only: if_P if_not_P simp_thms)
        from focused [OF this] nonempty shift True show ?thesis
          by blast
      next
        case False
        with result nonempty shift have "(completion, event', s') = (Inr (), event, ?s1)"
          by (simp only: if_P if_not_P simp_thms)
        from untouched [OF this] nonempty shift False show ?thesis
          by blast
      qed
    next
      case noshift: False
      show ?thesis
      proof (cases "activeElement d = Some (last tabbableElements)")
        case True
        with result nonempty noshift have "(completion, event', s') =
            (case invokeFocus (hd tabbableElements) None ?s1 of
               (c, s2) \<Rightarrow> (c, event\<lparr>defaultPrevented := True\<rparr>, s2))"
          by (simp only: if_P if_not_P simp_thms)
        from focused [OF this] nonempty noshift True show ?thesis
          by blast
      next
        case False
        with result nonempty noshift have "(completion, event', s') = (Inr (), event, ?s1)"
          by (simp only: if_P if_not_P simp_thms)
        from untouched [OF this] nonempty noshift False show ?thesis
          by blast
      qed
    qed
  qed
qed

text \<open>Shift+Tab on the first of two buttons moves the focus to the last.\<close>

theorem handleKeyDown_Tab_witness:
  "getFocusableElements digitsNumber (Some (Container [trapFirst, trapLast]))
       \<lparr>onlyTabbable = Some True, includeShadowDOM = None\<rparr>
       (Some \<lparr>activeElement = Some trapFirst, body = Some pageBody\<rparr>)
     = (Inr [trapFirst, trapLast], [])
   \<and> defaultPrevented
        (fst (snd (handleKeyDown digitsNumber modalTrap (tabKey True)
                     (initialState (Some trapFirst)))))
   \<and> focusCalls
        (snd (snd (handleKeyDown digitsNumber modalTrap (tabKey True)
                     (initialState (Some trapFirst)))))
       = [(trapLast, None)]
   \<and> currentActiveElement
        (snd (snd (handleKeyDown digitsNumber modalTrap (tabKey True)
                     (initialState (Some trapFirst)))))
       = Some trapLast"
proof -
  let ?d = "\<lparr>activeElement = Some trapFirst, body = Some pageBody\<rparr>"
  let ?s = "initialState (Some trapFirst)"
  let ?run = "handleKeyDown digitsNumber modalTrap (tabKey True) ?s"
  have trap: "active modalTrap"
    "containerRef modalTrap
       = Some (htmlElement 50 ''DIV'' [(''role'', ''dialog'')] None, [trapFirst, trapLast])"
    by (simp_all add: modalTrap_def)
  have tab: "key (tabKey True) = ''Tab''" and shift: "shiftKey (tabKey True)"
    by (simp_all add: tabKey_def)
  have doc: "document ?s = Some ?d"
    by (simp add: initialState_def)
  have enum: "getFocusableElements digitsNumber (Some (Container [trapFirst, trapLast]))
       \<lparr>onlyTabbable = Some True, includeShadowDOM = None\<rparr> (Some ?d)
     = (Inr [trapFirst, trapLast], [])"
    by code_simp
  have run: "?run = (fst ?run, fst (snd ?run), snd (snd ?run))"
    by simp
  have accepts: "focus trapLast = Accepts"
    by (simp add: trapLast_def htmlElement_def)
  have calls: "focusCalls ?s = []"
    by (simp add: initialState_def)
  from handleKeyDown_Tab [OF trap tab doc enum run] shift accepts calls enum
  show ?thesis
    by simp
qed

subsection \<open>First-focus director\<close>

lemma selectorLoop_verified:
  "selectorLoop ps xs s = (Some el, s') \<Longrightarrow>
     currentActiveElement s' = Some el \<and> el \<in> set xs
     \<and> last (focusCalls s') = (el, Some ps)"
proof (induction xs arbitrary: s)
  case Nil
  then show ?case by simp
next
  case (Cons x xs)
  obtain u t where inv: "invokeFocus x (Some ps) s = (u, t)"
    by (cases "invokeFocus x (Some ps) s")
  have calls: "focusCalls t = focusCalls s @ [(x, Some ps)]"
    using invokeFocus_calls [of x "Some ps" s] inv by simp
  show ?case
  proof (cases "u = Inr () \<and> currentActiveElement t = Some x")
    case True
    then show ?thesis
      using Cons.prems inv calls by (cases u) auto
  next
    case False
    then have "selectorLoop ps (x # xs) s = selectorLoop ps xs t"
      using inv by (cases u) auto
    then show ?thesis
      using Cons.IH [of t] Cons.prems by auto
  qed
qed

lemma selectorLoop_moves_on:
  assumes "document s = Some d"
    and "\<forall>x \<in> set skipped. focus x \<noteq> Accepts \<and> activeElement d \<noteq> Some x"
    and "focus el = Accepts"
  shows "fst (selectorLoop ps (skipped @ el # rest) s) = Some el
     \<and> focusCalls (snd (selectorLoop ps (skipped @ el # rest) s))
         = focusCalls s @ map (\<lambda>x. (x, Some ps)) (skipped @ [el])"
  using assms(1,2)
proof (induction skipped arbitrary: s)
  case Nil
  then show ?case
    using assms(3) by (simp add: invokeFocus_def Let_def currentActiveElement_def)
next
  case (Cons x skipped)
  obtain u t where inv: "invokeFocus x (Some ps) s = (u, t)"
    by (cases "invokeFocus x (Some ps) s")
  have x: "focus x \<noteq> Accepts" "activeElement d \<noteq> Some x"
    using Cons.prems(2) by simp_all
  have doc_t: "document t = Some d"
    using invokeFocus_document_unchanged [OF x(1), of "Some ps" s] inv Cons.prems(1) by simp
  have calls: "focusCalls t = focusCalls s @ [(x, Some ps)]"
    using invokeFocus_calls [of x "Some ps" s] inv by simp
  have "currentActiveElement t \<noteq> Some x"
    using doc_t x(2) by (simp add: currentActiveElement_def)
  then have "selectorLoop ps ((x # skipped) @ el # rest) s
               = selectorLoop ps (skipped @ el # rest) t"
    using inv by (cases u) auto
  then show ?case
    using Cons.IH [OF doc_t] Cons.prems(2) calls by simp
qed

text \<open>
  Claim C10. \<open>focusFirstElement\<close> calls \<open>focus\<close> on the first enumerated element and
  returns that element whenever the call does not throw; where the call does nothing and
  the element was not active, the element is returned although it is not the active
  element afterwards. \<open>focusFirstElementBySelector\<close> returns an element only when its
  last \<open>focus\<close> call was on that element and the element is the active element after
  it; it calls \<open>focus\<close> on the candidates in order and passes over every one whose call
  leaves another element active, up to the first one that takes the focus.
\<close>

theorem focusFirstElement_unverified:
  "(document s = Some d
      \<and> getFocusableElements Number (Some c)
            \<lparr>onlyTabbable = Some (case onlyTabbable options of None \<Rightarrow> True | Some b \<Rightarrow> b),
             includeShadowDOM = Some (case includeShadowDOM options of None \<Rightarrow> True | Some b \<Rightarrow> b)\<rparr>
            (Some d)
          = (Inr (first # others), written)
      \<and> focus first \<noteq> Throws
    \<longrightarrow> fst (focusFirstElement Number (Some c) options s) = Inr (Some first)
        \<and> focusCalls (snd (focusFirstElement Number (Some c) options s))
            = focusCalls s
              @ [(first, Some (case FocusFirstElementOptions.preventScroll options of
                                 None \<Rightarrow> True | Some b \<Rightarrow> b))]
        \<and> (focus first = Ignores \<and> activeElement d \<noteq> Some first \<longrightarrow>
             currentActiveElement (snd (focusFirstElement Number (Some c) options s))
               \<noteq> Some first))
   \<and> (focusFirstElementBySelector container selector options s = (Inr (Some el), s')
    \<longrightarrow> currentActiveElement s' = Some el
        \<and> last (focusCalls s')
            = (el, Some (case FocusFirstElementOptions.preventScroll options of
                           None \<Rightarrow> True | Some b \<Rightarrow> b)))
   \<and> (document s = Some d \<and> selector \<noteq> []
      \<and> querySelectorAll c selector = Inr (skipped @ el # rest)
      \<and> (\<forall>x \<in> set skipped. focus x \<noteq> Accepts \<and> activeElement d \<noteq> Some x)
      \<and> focus el = Accepts
    \<longrightarrow> fst (focusFirstElementBySelector (Some c) selector options s) = Inr (Some el)
        \<and> focusCalls (snd (focusFirstElementBySelector (Some c) selector options s))
            = focusCalls s
              @ map (\<lambda>x. (x, Some (case FocusFirstElementOptions.preventScroll options of
                                      None \<Rightarrow> True | Some b \<Rightarrow> b)))
                  (skipped @ [el]))"
proof (intro conjI impI)
  assume h: "document s = Some d
      \<and> getFocusableElements Number (Some c)
            \<lparr>onlyTabbable = Some (case onlyTabbable options of None \<Rightarrow> True | Some b \<Rightarrow> b),
             includeShadowDOM = Some (case includeShadowDOM options of None \<Rightarrow> True | Some b \<Rightarrow> b)\<rparr>
            (Some d)
          = (Inr (first # others), written)
      \<and> focus first \<noteq> Throws"
  let ?ps = "Some (case FocusFirstElementOptions.preventScroll options of
                     None \<Rightarrow> True | Some b \<Rightarrow> b)"
  let ?s1 = "s\<lparr>console := console s @ written\<rparr>"
  obtain u t where inv: "invokeFocus first ?ps ?s1 = (u, t)"
    by (cases "invokeFocus first ?ps ?s1")
  have u: "u = Inr ()"
    using h invokeFocus_no_throw [of first ?ps ?s1] inv by simp
  have run: "focusFirstElement Number (Some c) options s
               = (Inr (Some first), snd (invokeFocus first ?ps ?s1))"
    using h by (simp add: focusFirstElement_def Let_def inv u)
  show "fst (focusFirstElement Number (Some c) options s) = Inr (Some first)"
    by (simp add: run)
  show "focusCalls (snd (focusFirstElement Number (Some c) options s))
          = focusCalls s @ [(first, ?ps)]"
    using invokeFocus_calls [of first ?ps ?s1] by (simp add: run)
  show "currentActiveElement (snd (focusFirstElement Number (Some c) options s)) \<noteq> Some first"
    if "focus first = Ignores \<and> activeElement d \<noteq> Some first"
    using that h by (simp add: run invokeFocus_def Let_def currentActiveElement_def)
next
  let ?ps = "case FocusFirstElementOptions.preventScroll options of None \<Rightarrow> True | Some b \<Rightarrow> b"
  assume "focusFirstElementBySelector container selector options s = (Inr (Some el), s')"
  then obtain elements where "selectorLoop ?ps elements s = (Some el, s')"
    by (auto simp: focusFirstElementBySelector_def Let_def
        split: option.splits if_splits sum.splits prod.splits)
  from selectorLoop_verified [OF this]
  show "currentActiveElement s' = Some el" and "last (focusCalls s') = (el, Some ?ps)"
    by simp_all
next
  assume h: "document s = Some d \<and> selector \<noteq> []
      \<and> querySelectorAll c selector = Inr (skipped @ el # rest)
      \<and> (\<forall>x \<in> set skipped. focus x \<noteq> Accepts \<and> activeElement d \<noteq> Some x)
      \<and> focus el = Accepts"
  let ?ps = "case FocusFirstElementOptions.preventScroll options of None \<Rightarrow> True | Some b \<Rightarrow> b"
  have loop: "fst (selectorLoop ?ps (skipped @ el # rest) s) = Some el
     \<and> focusCalls (snd (selectorLoop ?ps (skipped @ el # rest) s))
         = focusCalls s @ map (\<lambda>x. (x, Some ?ps)) (skipped @ [el])"
    using h by (intro selectorLoop_moves_on [of s d]) simp_all
  have run: "focusFirstElementBySelector (Some c) selector options s
               = (Inr (fst (selectorLoop ?ps (skipped @ el # rest) s)),
                  snd (selectorLoop ?ps (skipped @ el # rest) s))"
    using h by (simp add: focusFirstElementBySelector_def Let_def split: prod.splits)
  show "fst (focusFirstElementBySelector (Some c) selector options s) = Inr (Some el)"
    using loop by (simp add: run)
  show "focusCalls (snd (focusFirstElementBySelector (Some c) selector options s))
          = focusCalls s @ map (\<lambda>x. (x, Some ?ps)) (skipped @ [el])"
    using loop by (simp add: run)
qed

text \<open>
  The dialog whose first button a style sheet hides: \<open>focusFirstElement\<close> calls its
  \<open>focus\<close>, nothing becomes active, and the button is returned all the same;
  \<open>focusFirstElementBySelector\<close> with the selector \<open>button\<close> calls \<open>focus\<close> on both
  buttons in turn and returns the second, which is then the active element.
\<close>

theorem focusFirstElement_unverified_witness:
  "fst (focusFirstElement digitsNumber (Some dialogContainer) firstOptions (initialState None))
     = Inr (Some styledAwayButton)
   \<and> focusCalls
        (snd (focusFirstElement digitsNumber (Some dialogContainer) firstOptions
                (initialState None)))
       = [(styledAwayButton, Some True)]
   \<and> currentActiveElement
        (snd (focusFirstElement digitsNumber (Some dialogContainer) firstOptions
                (initialState None)))
       \<noteq> Some styledAwayButton
   \<and> fst (focusFirstElementBySelector (Some dialogContainer) [TypeSel ''button''] firstOptions
          (initialState None))
       = Inr (Some submitButton)
   \<and> focusCalls
        (snd (focusFirstElementBySelector (Some dialogContainer) [TypeSel ''button'']
                firstOptions (initialState None)))
       = [(styledAwayButton, Some True), (submitButton, Some True)]
   \<and> currentActiveElement
        (snd (focusFirstElementBySelector (Some dialogContainer) [TypeSel ''button'']
                firstOptions (initialState None)))
       = Some submitButton"
proof -
  let ?d = "\<lparr>activeElement = None, body = Some pageBody\<rparr>"
  let ?s = "initialState None"
  let ?by = "focusFirstElementBySelector (Some dialogContainer) [TypeSel ''button''] firstOptions ?s"
  have doc: "document ?s = Some ?d" and calls: "focusCalls ?s = []"
    by (simp_all add: initialState_def)
  have ps: "FocusFirstElementOptions.preventScroll firstOptions = None"
    by (simp add: firstOptions_def)
  have enum: "getFocusableElements digitsNumber (Some dialogContainer)
            \<lparr>onlyTabbable = Some (case onlyTabbable firstOptions of None \<Rightarrow> True | Some b \<Rightarrow> b),
             includeShadowDOM =
               Some (case includeShadowDOM firstOptions of None \<Rightarrow> True | Some b \<Rightarrow> b)\<rparr>
            (Some ?d)
          = (Inr (styledAwayButton # [submitButton]), [])"
    by code_simp
  have ignores: "focus styledAwayButton = Ignores"
    by (simp add: styledAwayButton_def)
  have accepts: "focus submitButton = Accepts"
    by (simp add: submitButton_def htmlElement_def)
  have query: "querySelectorAll dialogContainer [TypeSel ''button'']
                 = Inr ([styledAwayButton] @ submitButton # [])"
    by code_simp
  note t = focusFirstElement_unverified
      [where s = ?s and d = ?d and Number = digitsNumber and c = dialogContainer
        and options = firstOptions and first = styledAwayButton and others = "[submitButton]"
        and written = "[]" and container = "Some dialogContainer"
        and selector = "[TypeSel ''button'']" and el = submitButton and s' = "snd ?by"
        and skipped = "[styledAwayButton]" and rest = "[]"]
  from t doc enum ignores
  have a: "fst (focusFirstElement digitsNumber (Some dialogContainer) firstOptions ?s)
             = Inr (Some styledAwayButton)
           \<and> focusCalls
                (snd (focusFirstElement digitsNumber (Some dialogContainer) firstOptions ?s))
               = [(styledAwayButton, Some True)]
           \<and> currentActiveElement
                (snd (focusFirstElement digitsNumber (Some dialogContainer) firstOptions ?s))
               \<noteq> Some styledAwayButton"
    by (simp add: calls ps)
  from t doc query ignores accepts
  have b: "fst ?by = Inr (Some submitButton)
           \<and> focusCalls (snd ?by) = [(styledAwayButton, Some True), (submitButton, Some True)]"
    by (simp add: calls ps)
  then have "?by = (Inr (Some submitButton), snd ?by)"
    by (simp add: prod_eq_iff)
  with t have c: "currentActiveElement (snd ?by) = Some submitButton"
    by blast
  from a b c show ?thesis
    by simp
qed

end
